theory Spec2Isabelle
  imports Complex_Main "HOL-Library.Char_ord" "HOL-Library.List_Lexorder"
begin

section \<open>JavaScript string primitives\<close>

text \<open>
  Strings are lists of 8-bit code units (the Latin-1 range of JavaScript's UTF-16 code
  units).  \<open>toLowerCase\<close> maps \<open>A\<close>--\<open>Z\<close> and the Latin-1 capitals
  \<open>0xC0\<close>--\<open>0xDE\<close> (except the multiplication sign \<open>0xD7\<close>) to their
  lower-case forms, as \<open>String.prototype.toLowerCase\<close> does on that range.
\<close>

definition toLowerChar :: "char \<Rightarrow> char" where
  "toLowerChar c =
     (let n = (of_char c :: nat)
      in if (65 \<le> n \<and> n \<le> 90) \<or> (192 \<le> n \<and> n \<le> 222 \<and> n \<noteq> 215)
         then char_of (n + 32) else c)"

definition toLowerCase :: "string \<Rightarrow> string" where
  "toLowerCase s = map toLowerChar s"

text \<open>\<open>s.startsWith(k)\<close> and \<open>s.includes(k)\<close> (substring search).\<close>

fun startsWith :: "string \<Rightarrow> string \<Rightarrow> bool" where
  "startsWith s [] = True"
| "startsWith [] (k # ks) = False"
| "startsWith (c # cs) (k # ks) = (c = k \<and> startsWith cs ks)"

fun str_includes :: "string \<Rightarrow> string \<Rightarrow> bool" where
  "str_includes [] k = (k = [])"
| "str_includes (c # cs) k = (startsWith (c # cs) k \<or> str_includes cs k)"

text \<open>
  The regular expression \<open>new RegExp('\\b' + keyword + '\\b', 'i')\<close>: the keyword as a
  literal (no keyword of the tables holds a regex metacharacter), between two word
  boundaries, compared case-insensitively.  \<open>\w\<close> is \<open>[A-Za-z0-9_]\<close>; a position
  outside the string counts as a non-word character.
\<close>

definition isWordChar :: "char \<Rightarrow> bool" where
  "isWordChar c =
     (let n = (of_char c :: nat)
      in (65 \<le> n \<and> n \<le> 90) \<or> (97 \<le> n \<and> n \<le> 122) \<or> (48 \<le> n \<and> n \<le> 57) \<or> n = 95)"

definition isWordAt :: "char option \<Rightarrow> bool" where
  "isWordAt p = (case p of None \<Rightarrow> False | Some c \<Rightarrow> isWordChar c)"

definition wordBoundary :: "char option \<Rightarrow> char option \<Rightarrow> bool" where
  "wordBoundary before after = (isWordAt before \<noteq> isWordAt after)"

text \<open>
  Case-insensitive comparison canonicalises both characters to upper case
  (\<open>a\<close>--\<open>z\<close> and \<open>0xE0\<close>--\<open>0xFE\<close> except the division sign \<open>0xF7\<close>).
\<close>

definition canonicalize :: "char \<Rightarrow> char" where
  "canonicalize c =
     (let n = (of_char c :: nat)
      in if (97 \<le> n \<and> n \<le> 122) \<or> (224 \<le> n \<and> n \<le> 254 \<and> n \<noteq> 247)
         then char_of (n - 32) else c)"

definition headOpt :: "string \<Rightarrow> char option" where
  "headOpt s = (case s of [] \<Rightarrow> None | c # _ \<Rightarrow> Some c)"

text \<open>
  \<open>matchKeywordAt before kw rest\<close>: the keyword \<open>kw\<close> followed by \<open>\b\<close> matches at
  the head of \<open>rest\<close>, where \<open>before\<close> is the character just before \<open>rest\<close>.
\<close>

fun matchKeywordAt :: "char option \<Rightarrow> string \<Rightarrow> string \<Rightarrow> bool" where
  "matchKeywordAt before [] rest = wordBoundary before (headOpt rest)"
| "matchKeywordAt before (k # ks) [] = False"
| "matchKeywordAt before (k # ks) (c # cs) =
     (canonicalize c = canonicalize k \<and> matchKeywordAt (Some c) ks cs)"

fun regexScan :: "char option \<Rightarrow> string \<Rightarrow> string \<Rightarrow> bool" where
  "regexScan before kw [] = (wordBoundary before None \<and> matchKeywordAt before kw [])"
| "regexScan before kw (c # cs) =
     ((wordBoundary before (Some c) \<and> matchKeywordAt before kw (c # cs))
      \<or> regexScan (Some c) kw cs)"

definition regexWordTest :: "string \<Rightarrow> string \<Rightarrow> bool" where
  "regexWordTest keyword input = regexScan None keyword input"

section \<open>Task analyzer (analysis.ts)\<close>

datatype ProjectType = WebApp | Api | Cli | Library | Fullstack

datatype Complexity = CxSimple | CxMedium | CxComplex

text \<open>\<open>PATTERNS.projectType\<close>, in the insertion order that \<open>Object.entries\<close> follows.\<close>

definition PATTERNS_projectType :: "(ProjectType \<times> string list) list" where
  "PATTERNS_projectType =
    [(WebApp, [''app'', ''website'', ''dashboard'', ''platform'', ''portal'', ''web app'', ''webapp'']),
     (Api, [''api'', ''rest'', ''endpoint'', ''service'', ''backend'', ''server'']),
     (Cli, [''command'', ''terminal'', ''cli'', ''tool'', ''script'', ''command line'']),
     (Library, [''library'', ''package'', ''module'', ''sdk'', ''framework'']),
     (Fullstack, [''full'', ''fullstack'', ''full-stack'', ''complete'', ''full stack''])]"

text \<open>\<open>PATTERNS.features\<close>, in insertion order.\<close>

definition PATTERNS_features :: "(string \<times> string list) list" where
  "PATTERNS_features =
    [(''auth'', [''auth'', ''login'', ''signup'', ''user'', ''account'', ''register'',
                 ''authentication'', ''authorization'']),
     (''database'', [''database'', ''data'', ''store'', ''persist'', ''sql'', ''postgres'',
                     ''mysql'', ''mongodb'', ''db'']),
     (''realtime'', [''realtime'', ''websocket'', ''live'', ''socket'', ''real-time'',
                     ''real time'', ''live updates'']),
     (''api'', [''rest api'', ''rest endpoint'', ''backend api'', ''server api'', ''api endpoint'',
                ''graphql'', ''routes'', ''express'', ''fastify'', ''backend'', ''node'', ''nodejs'',
                ''server'']),
     (''fastapi'', [''fastapi'', ''fast api'', ''python api'', ''python backend'', ''uvicorn'']),
     (''frontend'', [''frontend'', ''ui'', ''interface'', ''react'', ''component'', ''vue'',
                     ''angular'', ''context api'', ''state management'']),
     (''testing'', [''test'', ''testing'', ''jest'', ''unit test'', ''integration test'', ''e2e'']),
     (''payment'', [''payment'', ''stripe'', ''checkout'', ''billing'', ''paypal'', ''credit card'']),
     (''email'', [''email'', ''mail'', ''notification'', ''smtp'', ''sendgrid'']),
     (''file'', [''file'', ''upload'', ''download'', ''storage'', ''s3'', ''cloudinary'']),
     (''search'', [''search'', ''elasticsearch'', ''algolia'', ''query'']),
     (''cache'', [''cache'', ''redis'', ''memcached'', ''caching'']),
     (''monitoring'', [''monitoring'', ''analytics'', ''logging'', ''metrics'', ''tracking'']),
     (''fintech'', [''fintech'', ''financial'', ''banking'', ''loan'', ''credit'', ''mortgage'',
                    ''investment'', ''trading'', ''crypto'', ''blockchain'', ''payment processing'',
                    ''compliance'', ''audit'', ''transaction'']),
     (''healthcare'', [''healthcare'', ''medical'', ''patient'', ''hospital'', ''clinic'',
                       ''pharmacy'', ''hipaa'', ''health records'']),
     (''ecommerce'', [''ecommerce'', ''e-commerce'', ''shopping'', ''retail'', ''inventory'',
                      ''catalog'', ''cart'', ''checkout''])]"

text \<open>The four phrases that stand for a network API.\<close>

definition restApiPhrase :: "string \<Rightarrow> bool" where
  "restApiPhrase input =
     (str_includes input ''rest api'' \<or> str_includes input ''backend api''
      \<or> str_includes input ''server api'' \<or> str_includes input ''rest endpoint'')"

text \<open>The callback of \<open>keywords.some\<close> in \<open>detectProjectType\<close>.\<close>

definition projectKeywordHit :: "string \<Rightarrow> ProjectType \<Rightarrow> string \<Rightarrow> bool" where
  "projectKeywordHit input type keyword =
     (if type = Api \<and> keyword = ''api'' then restApiPhrase input
      else str_includes input keyword)"

definition detectProjectType :: "string \<Rightarrow> ProjectType" where
  "detectProjectType input =
     (if (str_includes input ''frontend'' \<and> str_includes input ''backend'')
         \<or> (str_includes input ''react'' \<and> str_includes input ''node'')
         \<or> (str_includes input ''frontend'' \<and> str_includes input ''node'')
         \<or> str_includes input ''fullstack'' \<or> str_includes input ''full-stack''
         \<or> str_includes input ''full stack''
      then Fullstack
      else if str_includes input ''context api'' \<or> str_includes input ''react''
              \<or> str_includes input ''component''
      then WebApp
      else if str_includes input ''library'' \<or> str_includes input ''package''
              \<or> str_includes input ''module'' \<or> str_includes input ''sdk''
              \<or> str_includes input ''framework''
      then Library
      else (case find (\<lambda>(type, keywords). list_ex (projectKeywordHit input type) keywords)
                      PATTERNS_projectType of
              Some (type, keywords) \<Rightarrow> type
            | None \<Rightarrow> WebApp))"

text \<open>The callback of \<open>keywords.some\<close> in \<open>detectFeatures\<close>.\<close>

definition featureKeywordHit :: "string \<Rightarrow> string \<Rightarrow> bool" where
  "featureKeywordHit input keyword =
     (if str_includes keyword '' '' then str_includes input keyword
      else regexWordTest keyword input)"

text \<open>One iteration of the loop over \<open>Object.entries(PATTERNS.features)\<close>.\<close>

definition featureStep :: "string \<Rightarrow> string list \<Rightarrow> string \<times> string list \<Rightarrow> string list" where
  "featureStep input detectedFeatures entry =
     (case entry of (feature, keywords) \<Rightarrow>
        if feature = ''api'' \<and> ''frontend'' \<in> set detectedFeatures
           \<and> str_includes input ''context api''
        then detectedFeatures
        else if list_ex (featureKeywordHit input) keywords \<and> feature \<notin> set detectedFeatures
        then detectedFeatures @ [feature]
        else detectedFeatures)"

definition detectFeatures :: "string \<Rightarrow> string list" where
  "detectFeatures input =
     (let start = (if str_includes input ''context api'' \<or> str_includes input ''state management''
                   then [''frontend''] else []);
          looped = foldl (featureStep input) start PATTERNS_features
      in if (str_includes input ''rest api'' \<or> str_includes input ''rest endpoint''
             \<or> str_includes input ''backend api'' \<or> str_includes input ''server api'')
            \<and> ''api'' \<notin> set looped
         then looped @ [''api''] else looped)"

definition determineComplexity :: "nat \<Rightarrow> Complexity" where
  "determineComplexity featureCount =
     (if featureCount \<le> 2 then CxSimple else if featureCount \<le> 5 then CxMedium else CxComplex)"


section \<open>Data model (types.ts)\<close>

record Tradeoffs =
  pros :: "string list"
  cons :: "string list"

record Alternative =
  technology :: string
  whenToUse :: string
  alt_tradeoffs :: "string list"

datatype ImplComplexity = Low | Mid | High

record Implementation =
  impl_complexity :: ImplComplexity
  timeline :: string
  learningCurve :: string

text \<open>
  Numbers are exact rationals: floating-point rounding error is not modelled.
\<close>

record TechnologyComparison =
  recommendation :: string
  confidence :: rat
  reasoning :: "string list"
  tradeoffs :: Tradeoffs
  alternatives :: "Alternative list"
  implementation :: Implementation

record TaskAnalysis =
  projectType :: ProjectType
  features :: "string list"
  complexity :: Complexity
  hasAuth :: bool
  hasDatabase :: bool
  hasFrontend :: bool
  hasBackend :: bool
  hasRealtime :: bool
  hasFastAPI :: bool
  hasFintech :: bool
  hasHealthcare :: bool
  hasEcommerce :: bool
  databaseRecommendation :: "TechnologyComparison option"
  backendRecommendation :: "TechnologyComparison option"
  frontendRecommendation :: "TechnologyComparison option"

section \<open>Technology decision engine (decisionEngine.ts)\<close>

text \<open>The fixed-text part of one entry of a rule table.\<close>

record Rules =
  rule_recommendation :: string
  rule_reasoning :: "string list"
  rule_pros :: "string list"
  rule_cons :: "string list"
  rule_alternatives :: "Alternative list"

text \<open>
  The statement \<open>if (c) score += w\<close> is written \<open>score = score + bonus c w\<close>, and
  \<open>if (c) score -= w\<close> is \<open>score = score - bonus c w\<close>.
\<close>

definition bonus :: "bool \<Rightarrow> rat \<Rightarrow> rat" where
  "bonus c w = (if c then w else 0)"

definition DATABASE_RULES_sql_score :: "TaskAnalysis \<Rightarrow> rat" where
  "DATABASE_RULES_sql_score analysis =
     (let score = 0;
          score = score + bonus (''auth'' \<in> set (features analysis)) (3 / 10);
          score = score + bonus (''payment'' \<in> set (features analysis)) (4 / 10);
          score = score + bonus (complexity analysis = CxComplex) (3 / 10);
          score = score + bonus (hasAuth analysis) (2 / 10);
          score = score + bonus (hasFintech analysis) (8 / 10);
          score = score + bonus (hasHealthcare analysis) (7 / 10);
          score = score + bonus (hasEcommerce analysis) (5 / 10)
      in min score 1)"

definition DATABASE_RULES_sql :: Rules where
  "DATABASE_RULES_sql =
    \<lparr>rule_recommendation = ''PostgreSQL'',
     rule_reasoning =
       [''Structured data with clear relationships'',
        ''ACID compliance for critical operations'',
        ''Complex queries with joins and aggregations'',
        ''Mature ecosystem with proven reliability''],
     rule_pros =
       [''ACID compliance'', ''Complex queries with joins'', ''Mature ecosystem'',
        ''Excellent tooling'', ''Strong consistency''],
     rule_cons =
       [''Schema changes require migrations'', ''Primarily vertical scaling'',
        ''Less flexible for rapid changes''],
     rule_alternatives =
       [\<lparr>technology = ''MySQL'',
         whenToUse = ''When you need a more established, widely-used SQL database'',
         alt_tradeoffs = [''More mature ecosystem'', ''Better Windows support'',
                          ''Less advanced features than PostgreSQL'']\<rparr>,
        \<lparr>technology = ''SQLite'',
         whenToUse = ''For small applications or development/testing'',
         alt_tradeoffs = [''Zero configuration'', ''Single file database'',
                          ''Not suitable for production with multiple users'']\<rparr>]\<rparr>"

definition DATABASE_RULES_nosql_score :: "TaskAnalysis \<Rightarrow> rat" where
  "DATABASE_RULES_nosql_score analysis =
     (let score = 0;
          score = score + bonus (''realtime'' \<in> set (features analysis)) (3 / 10);
          score = score + bonus (''analytics'' \<in> set (features analysis)) (4 / 10);
          score = score + bonus (complexity analysis = CxSimple) (3 / 10);
          score = score + bonus (hasRealtime analysis) (2 / 10);
          score = score - bonus (hasFintech analysis) (6 / 10);
          score = score - bonus (hasHealthcare analysis) (5 / 10)
      in max 0 (min score 1))"

definition DATABASE_RULES_nosql :: Rules where
  "DATABASE_RULES_nosql =
    \<lparr>rule_recommendation = ''MongoDB'',
     rule_reasoning =
       [''Flexible schema for rapid development'',
        ''Horizontal scaling capabilities'',
        ''Good for document-based data'',
        ''JSON-like data structure''],
     rule_pros =
       [''Flexible schema'', ''Horizontal scaling'', ''Fast development'', ''JSON-like data'',
        ''Good for prototyping''],
     rule_cons =
       [''No ACID transactions'', ''Less mature tooling'', ''Can lead to data inconsistency'',
        ''Learning curve for complex queries''],
     rule_alternatives =
       [\<lparr>technology = ''Cassandra'',
         whenToUse = ''For massive scale and high availability requirements'',
         alt_tradeoffs = [''Excellent horizontal scaling'', ''High availability'',
                          ''Complex data modeling'', ''Steep learning curve'']\<rparr>,
        \<lparr>technology = ''Redis'',
         whenToUse = ''For caching, sessions, or real-time data'',
         alt_tradeoffs = [''Extremely fast'', ''In-memory storage'', ''Limited data types'',
                          ''Not suitable as primary database'']\<rparr>]\<rparr>"

definition BACKEND_RULES_nodejs_score :: "TaskAnalysis \<Rightarrow> rat" where
  "BACKEND_RULES_nodejs_score analysis =
     (let score = 0;
          score = score + bonus (hasFrontend analysis \<and> \<not> hasFastAPI analysis) (4 / 10);
          score = score + bonus (''realtime'' \<in> set (features analysis)) (3 / 10);
          score = score
                   + bonus (complexity analysis = CxSimple \<or> complexity analysis = CxMedium) (3 / 10);
          score = score + bonus (hasFintech analysis) (2 / 10)
      in min score 1)"

definition BACKEND_RULES_nodejs :: Rules where
  "BACKEND_RULES_nodejs =
    \<lparr>rule_recommendation = ''Node.js with Express'',
     rule_reasoning =
       [''Same language as React frontend (JavaScript)'',
        ''Rich ecosystem with NPM packages'',
        ''Excellent for I/O-heavy applications'',
        ''Fast development with existing tooling''],
     rule_pros =
       [''Same language as frontend'', ''Rich NPM ecosystem'', ''Fast development'',
        ''Good async performance'', ''Large community''],
     rule_cons =
       [''Single-threaded limitations'', ''Callback complexity'',
        ''Less suitable for CPU-intensive tasks''],
     rule_alternatives =
       [\<lparr>technology = ''Node.js with Fastify'',
         whenToUse = ''When you need better performance than Express'',
         alt_tradeoffs = [''Faster than Express'', ''Better TypeScript support'',
                          ''Smaller ecosystem'', ''Less middleware'']\<rparr>]\<rparr>"

definition BACKEND_RULES_fastapi_score :: "TaskAnalysis \<Rightarrow> rat" where
  "BACKEND_RULES_fastapi_score analysis =
     (let score = 0;
          score = score + bonus (hasFastAPI analysis) (5 / 10);
          score = score + bonus (''api'' \<in> set (features analysis)) (3 / 10);
          score = score + bonus (complexity analysis = CxComplex) (2 / 10);
          score = score + bonus (hasFintech analysis) (3 / 10)
      in min score 1)"

definition BACKEND_RULES_fastapi :: Rules where
  "BACKEND_RULES_fastapi =
    \<lparr>rule_recommendation = ''Python with FastAPI'',
     rule_reasoning =
       [''Excellent performance for API-heavy applications'',
        ''Automatic API documentation'',
        ''Type safety with Pydantic'',
        ''Great async support''],
     rule_pros =
       [''High performance'', ''Auto-generated docs'', ''Type safety'', ''Great async support'',
        ''Modern Python features''],
     rule_cons =
       [''Smaller ecosystem than Node.js'', ''Python learning curve if team is JS-focused'',
        ''Less mature than Express''],
     rule_alternatives =
       [\<lparr>technology = ''Python with Django'',
         whenToUse = ''For full-stack applications with admin interface'',
         alt_tradeoffs = [''Batteries included'', ''Admin interface'', ''Heavier framework'',
                          ''More opinionated'']\<rparr>,
        \<lparr>technology = ''Python with Flask'',
         whenToUse = ''For lightweight, flexible applications'',
         alt_tradeoffs = [''Lightweight'', ''Flexible'', ''More manual setup'',
                          ''Less features out of the box'']\<rparr>]\<rparr>"

definition FRONTEND_RULES_react_score :: "TaskAnalysis \<Rightarrow> rat" where
  "FRONTEND_RULES_react_score analysis =
     (let score = 0;
          score = score + bonus (''frontend'' \<in> set (features analysis)) (4 / 10);
          score = score
                   + bonus (projectType analysis = WebApp \<or> projectType analysis = Fullstack) (3 / 10);
          score = score
                   + bonus (complexity analysis = CxMedium \<or> complexity analysis = CxComplex) (3 / 10)
      in min score 1)"

definition FRONTEND_RULES_react :: Rules where
  "FRONTEND_RULES_react =
    \<lparr>rule_recommendation = ''React with TypeScript'',
     rule_reasoning =
       [''Most popular and mature frontend framework'',
        ''Large ecosystem and community'',
        ''Component-based architecture'',
        ''Excellent tooling and development experience''],
     rule_pros =
       [''Large ecosystem'', ''Component-based'', ''Great tooling'', ''Strong community'',
        ''Flexible''],
     rule_cons =
       [''Learning curve'', ''Rapid changes'', ''Can be overkill for simple apps''],
     rule_alternatives =
       [\<lparr>technology = ''Vue.js'',
         whenToUse = ''For teams wanting a gentler learning curve'',
         alt_tradeoffs = [''Easier to learn'', ''Good documentation'', ''Smaller ecosystem'',
                          ''Less job market'']\<rparr>,
        \<lparr>technology = ''Svelte'',
         whenToUse = ''For performance-critical applications'',
         alt_tradeoffs = [''Better performance'', ''Smaller bundle size'', ''Smaller ecosystem'',
                          ''Less mature'']\<rparr>]\<rparr>"

definition getDatabaseTimeline :: "Complexity \<Rightarrow> string" where
  "getDatabaseTimeline c =
     (case c of CxSimple \<Rightarrow> ''1-2 days'' | CxMedium \<Rightarrow> ''3-5 days'' | CxComplex \<Rightarrow> ''1-2 weeks'')"

definition getBackendTimeline :: "Complexity \<Rightarrow> string" where
  "getBackendTimeline c =
     (case c of CxSimple \<Rightarrow> ''1-2 weeks'' | CxMedium \<Rightarrow> ''2-3 weeks'' | CxComplex \<Rightarrow> ''3-6 weeks'')"

definition getFrontendTimeline :: "Complexity \<Rightarrow> string" where
  "getFrontendTimeline c =
     (case c of CxSimple \<Rightarrow> ''1-2 weeks'' | CxMedium \<Rightarrow> ''2-4 weeks'' | CxComplex \<Rightarrow> ''4-8 weeks'')"

text \<open>\<open>Math.round(confidence * 100) / 100\<close>: \<open>Math.round\<close> rounds halves upwards.\<close>

definition round2 :: "rat \<Rightarrow> rat" where
  "round2 x = of_int \<lfloor>x * 100 + 1 / 2\<rfloor> / 100"

definition implComplexityOf :: "Complexity \<Rightarrow> ImplComplexity" where
  "implComplexityOf c = (if c = CxComplex then High else if c = CxMedium then Mid else Low)"

definition calculateDatabaseConfidence :: "TaskAnalysis \<Rightarrow> bool \<Rightarrow> rat \<Rightarrow> rat" where
  "calculateDatabaseConfidence analysis isSQL baseConfidence =
     (let confidence = baseConfidence;
          confidence = confidence + bonus (hasFintech analysis \<and> isSQL) (2 / 10);
          confidence = confidence + bonus (hasHealthcare analysis \<and> isSQL) (15 / 100);
          confidence = confidence + bonus (hasEcommerce analysis \<and> isSQL) (1 / 10);
          confidence = confidence + bonus (hasAuth analysis \<and> isSQL) (1 / 10);
          confidence = confidence
                   + bonus (''payment'' \<in> set (features analysis) \<and> isSQL) (15 / 100);
          confidence = confidence + bonus (complexity analysis = CxComplex \<and> isSQL) (1 / 10);
          confidence = confidence - bonus (hasFintech analysis \<and> \<not> isSQL) (3 / 10);
          confidence = confidence - bonus (hasHealthcare analysis \<and> \<not> isSQL) (25 / 100);
          sqlScore = DATABASE_RULES_sql_score analysis;
          nosqlScore = DATABASE_RULES_nosql_score analysis;
          scoreDifference = \<bar>sqlScore - nosqlScore\<bar>;
          confidence = confidence + (if scoreDifference > 5 / 10 then 1 / 10
                                     else if scoreDifference < 2 / 10 then - (1 / 10) else 0)
      in max (1 / 10) (min (95 / 100) confidence))"

definition calculateBackendConfidence :: "TaskAnalysis \<Rightarrow> bool \<Rightarrow> rat \<Rightarrow> rat" where
  "calculateBackendConfidence analysis isNodeJS baseConfidence =
     (let confidence = baseConfidence;
          confidence = confidence + bonus (hasFrontend analysis \<and> isNodeJS) (15 / 100);
          confidence = confidence + bonus (hasFintech analysis \<and> \<not> isNodeJS) (1 / 10);
          confidence = confidence + bonus (hasRealtime analysis \<and> isNodeJS) (1 / 10);
          confidence = confidence
                   + bonus (''api'' \<in> set (features analysis) \<and> \<not> isNodeJS) (1 / 10);
          confidence = confidence
                   + bonus (complexity analysis = CxComplex \<and> \<not> isNodeJS) (5 / 100);
          confidence = confidence + bonus (hasFastAPI analysis) (2 / 10)
      in max (1 / 10) (min (95 / 100) confidence))"

definition calculateFrontendConfidence :: "TaskAnalysis \<Rightarrow> rat \<Rightarrow> rat" where
  "calculateFrontendConfidence analysis baseConfidence =
     (let confidence = baseConfidence;
          confidence = confidence
                   + bonus (projectType analysis = WebApp \<or> projectType analysis = Fullstack) (1 / 10);
          confidence = confidence
                   + bonus (complexity analysis = CxMedium \<or> complexity analysis = CxComplex) (1 / 10);
          confidence = confidence + bonus (hasRealtime analysis) (5 / 100);
          confidence = confidence + bonus (hasBackend analysis) (5 / 100)
      in max (1 / 10) (min (95 / 100) confidence))"

definition fintechSqlReasoning :: "string list" where
  "fintechSqlReasoning =
     [''ACID compliance essential for financial transactions'',
      ''Regulatory compliance (SOX, PCI DSS) requirements'',
      ''Audit trails and transaction logging capabilities'',
      ''Data integrity critical for financial calculations'',
      ''Complex financial reporting with joins and aggregations'']"

definition analyzeDatabase :: "TaskAnalysis \<Rightarrow> TechnologyComparison" where
  "analyzeDatabase analysis =
     (let sqlScore = DATABASE_RULES_sql_score analysis;
          nosqlScore = DATABASE_RULES_nosql_score analysis;
          isSQL = (sqlScore > nosqlScore);
          rules = (if isSQL then DATABASE_RULES_sql else DATABASE_RULES_nosql);
          baseConfidence = max sqlScore nosqlScore;
          confidence = calculateDatabaseConfidence analysis isSQL baseConfidence;
          reasoning = (if hasFintech analysis \<and> isSQL then fintechSqlReasoning
                       else rule_reasoning rules)
      in \<lparr>recommendation = rule_recommendation rules,
          confidence = round2 confidence,
          reasoning = reasoning,
          tradeoffs = \<lparr>pros = rule_pros rules, cons = rule_cons rules\<rparr>,
          alternatives = rule_alternatives rules,
          implementation =
            \<lparr>impl_complexity = implComplexityOf (complexity analysis),
             timeline = getDatabaseTimeline (complexity analysis),
             learningCurve = (if isSQL then ''Medium - SQL knowledge required''
                              else ''Low - JSON-like structure'')\<rparr>\<rparr>)"

definition analyzeBackend :: "TaskAnalysis \<Rightarrow> TechnologyComparison" where
  "analyzeBackend analysis =
     (let nodejsScore = BACKEND_RULES_nodejs_score analysis;
          fastapiScore = BACKEND_RULES_fastapi_score analysis;
          isNodeJS = (nodejsScore > fastapiScore);
          rules = (if isNodeJS then BACKEND_RULES_nodejs else BACKEND_RULES_fastapi);
          baseConfidence = max nodejsScore fastapiScore;
          confidence = calculateBackendConfidence analysis isNodeJS baseConfidence
      in \<lparr>recommendation = rule_recommendation rules,
          confidence = round2 confidence,
          reasoning = rule_reasoning rules,
          tradeoffs = \<lparr>pros = rule_pros rules, cons = rule_cons rules\<rparr>,
          alternatives = rule_alternatives rules,
          implementation =
            \<lparr>impl_complexity = implComplexityOf (complexity analysis),
             timeline = getBackendTimeline (complexity analysis),
             learningCurve = (if isNodeJS then ''Low if team knows JavaScript''
                              else ''Medium - Python learning curve'')\<rparr>\<rparr>)"

definition analyzeFrontend :: "TaskAnalysis \<Rightarrow> TechnologyComparison" where
  "analyzeFrontend analysis =
     (let reactScore = FRONTEND_RULES_react_score analysis;
          rules = FRONTEND_RULES_react;
          confidence = calculateFrontendConfidence analysis reactScore
      in \<lparr>recommendation = rule_recommendation rules,
          confidence = round2 confidence,
          reasoning = rule_reasoning rules,
          tradeoffs = \<lparr>pros = rule_pros rules, cons = rule_cons rules\<rparr>,
          alternatives = rule_alternatives rules,
          implementation =
            \<lparr>impl_complexity = implComplexityOf (complexity analysis),
             timeline = getFrontendTimeline (complexity analysis),
             learningCurve = ''Medium - Component-based thinking required''\<rparr>\<rparr>)"

text \<open>
  \<open>analyzeTask\<close>.  The classification runs on \<open>lowerInput\<close>; the \<open>hasBackend\<close> flag
  also searches the raw \<open>input\<close>, as the source does.
\<close>

definition baseAnalysis :: "string \<Rightarrow> TaskAnalysis" where
  "baseAnalysis input =
     (let lowerInput = toLowerCase input;
          projectType = detectProjectType lowerInput;
          features = detectFeatures lowerInput;
          complexity = determineComplexity (length features)
      in \<lparr>projectType = projectType,
          features = features,
          complexity = complexity,
          hasAuth = (''auth'' \<in> set features),
          hasDatabase = (''database'' \<in> set features \<or> ''auth'' \<in> set features
                         \<or> projectType = WebApp \<or> projectType = Fullstack),
          hasFrontend = (''frontend'' \<in> set features \<or> projectType = WebApp
                         \<or> projectType = Fullstack),
          hasBackend = (''api'' \<in> set features \<or> ''fastapi'' \<in> set features
                        \<or> ''auth'' \<in> set features \<or> projectType = Api
                        \<or> projectType = Fullstack \<or> ''fintech'' \<in> set features
                        \<or> ''ecommerce'' \<in> set features \<or> str_includes input ''backend''
                        \<or> (projectType = WebApp
                            \<and> (''database'' \<in> set features \<or> str_includes input ''blog''
                                \<or> str_includes input ''posts''
                                \<or> str_includes input ''comments''))),
          hasRealtime = (''realtime'' \<in> set features),
          hasFastAPI = (''fastapi'' \<in> set features),
          hasFintech = (''fintech'' \<in> set features),
          hasHealthcare = (''healthcare'' \<in> set features),
          hasEcommerce = (''ecommerce'' \<in> set features),
          databaseRecommendation = None,
          backendRecommendation = None,
          frontendRecommendation = None\<rparr>)"

definition analyzeTask :: "string \<Rightarrow> TaskAnalysis" where
  "analyzeTask input =
     (let analysis = baseAnalysis input;
          analysis = (if hasDatabase analysis
                      then analysis\<lparr>databaseRecommendation := Some (analyzeDatabase analysis)\<rparr>
                      else analysis);
          analysis = (if hasBackend analysis
                      then analysis\<lparr>backendRecommendation := Some (analyzeBackend analysis)\<rparr>
                      else analysis);
          analysis = (if hasFrontend analysis
                      then analysis\<lparr>frontendRecommendation := Some (analyzeFrontend analysis)\<rparr>
                      else analysis)
      in analysis)"

text \<open>
  Three sample analyses.  \<open>tieAnalysis\<close> is what the analyzer derives from a task
  that names a server, a database and tests: both database scores are 0 and both backend
  scores are 0.3.  \<open>cappedAnalysis\<close> carries the fintech, healthcare, e-commerce and
  auth flags at once.  \<open>fintechAnalysis\<close> is the analysis of the one-word task
  \<open>fintech\<close>.
\<close>

definition tieAnalysis :: TaskAnalysis where
  "tieAnalysis =
    \<lparr>projectType = Api, features = [''database'', ''api'', ''testing''], complexity = CxMedium,
     hasAuth = False, hasDatabase = True, hasFrontend = False, hasBackend = True,
     hasRealtime = False, hasFastAPI = False, hasFintech = False, hasHealthcare = False,
     hasEcommerce = False, databaseRecommendation = None, backendRecommendation = None,
     frontendRecommendation = None\<rparr>"

definition cappedAnalysis :: TaskAnalysis where
  "cappedAnalysis =
    \<lparr>projectType = WebApp, features = [''auth'', ''fintech'', ''healthcare'', ''ecommerce''],
     complexity = CxMedium,
     hasAuth = True, hasDatabase = True, hasFrontend = True, hasBackend = True,
     hasRealtime = False, hasFastAPI = False, hasFintech = True, hasHealthcare = True,
     hasEcommerce = True, databaseRecommendation = None, backendRecommendation = None,
     frontendRecommendation = None\<rparr>"

definition fintechAnalysis :: TaskAnalysis where
  "fintechAnalysis =
    \<lparr>projectType = WebApp, features = [''fintech''], complexity = CxSimple,
     hasAuth = False, hasDatabase = True, hasFrontend = True, hasBackend = True,
     hasRealtime = False, hasFastAPI = False, hasFintech = True, hasHealthcare = False,
     hasEcommerce = False, databaseRecommendation = None, backendRecommendation = None,
     frontendRecommendation = None\<rparr>"

section \<open>Plan data model (types.ts)\<close>

datatype Action = Create | Modify | Delete

text \<open>A file-level instruction; the optional \<open>reasoning\<close> is never set by the planner.\<close>

record FileChange =
  path :: string
  action :: Action
  file_description :: string
  details :: "string list"

datatype Status = Pending | Ready | InFlight | Enhancing | Enhanced | EnhancementFailed

record Phase =
  phase_id :: string
  name :: string
  description :: string
  status :: Status
  estimatedTime :: "string option"
  dependencies :: "string list"
  files :: "FileChange list"

datatype GenerationMethod = RuleBased | Hybrid

record Plan =
  plan_id :: string
  plan_task :: string
  overview :: string
  phases :: "Phase list"
  techStack :: "string list"
  risks :: "string list"
  generationMethod :: GenerationMethod

section \<open>Rule-based planner (planner.ts)\<close>

text \<open>
  Each \<open>generate...Phase\<close> builds its local \<open>files\<close> array by a sequence of
  \<open>files.push(...)\<close>; the array is the definition \<open>..._files\<close> here, and a conditional
  push is written \<open>files @ (if c then [...] else [])\<close>.
\<close>

definition generateSetupPhase_files :: "TaskAnalysis \<Rightarrow> FileChange list" where
  "generateSetupPhase_files analysis =
     (if hasFastAPI analysis
      then [\<lparr>path = ''requirements.txt'', action = Create,
             file_description = ''Python dependencies'',
             details = [''FastAPI and Uvicorn for server'',
                        ''SQLAlchemy for database'',
                        ''Pydantic for validation'',
                        ''Development dependencies'']\<rparr>,
            \<lparr>path = ''app/__init__.py'', action = Create,
             file_description = ''Application package initialization'',
             details = [''Empty __init__.py file'']\<rparr>,
            \<lparr>path = ''app/main.py'', action = Create,
             file_description = ''FastAPI application configuration'',
             details = [''FastAPI app initialization'',
                        ''CORS middleware setup'',
                        ''Route registration'']\<rparr>,
            \<lparr>path = ''.env'', action = Create,
             file_description = ''Environment variables'',
             details = [''Database connection string'',
                        ''API keys and secrets'',
                        ''Environment-specific settings'']\<rparr>]
      else [\<lparr>path = ''package.json'', action = Create,
             file_description = ''Initialize Node.js project with dependencies'',
             details = [''Set up TypeScript with strict mode'',
                        ''Add essential dependencies'',
                        ''Configure build and dev scripts'']\<rparr>,
            \<lparr>path = ''tsconfig.json'', action = Create,
             file_description = ''TypeScript configuration'',
             details = [''Enable strict type checking'',
                        ''Set module resolution to Node'',
                        ''Configure path aliases for clean imports'']\<rparr>,
            \<lparr>path = ''src/types/index.ts'', action = Create,
             file_description = ''Define core TypeScript interfaces'',
             details = [''Create domain models'',
                        ''Define API request/response types'',
                        ''Add utility types'']\<rparr>])"

definition generateSetupPhase :: "TaskAnalysis \<Rightarrow> Phase" where
  "generateSetupPhase analysis =
    \<lparr>phase_id = ''phase-setup'',
     name = ''Project Setup & Architecture'',
     description = ''Initialize project structure and configure development environment'',
     status = Ready,
     estimatedTime = Some ''30 minutes'',
     dependencies = [],
     files = generateSetupPhase_files analysis\<rparr>"

definition generateDatabasePhase_files :: "TaskAnalysis \<Rightarrow> FileChange list" where
  "generateDatabasePhase_files analysis =
     (let files =
            (if hasFastAPI analysis
             then [\<lparr>path = ''app/database.py'', action = Create,
                    file_description = ''Database configuration and connection'',
                    details = [''SQLAlchemy engine setup'',
                               ''Database session management'',
                               ''Connection pooling configuration'']\<rparr>,
                   \<lparr>path = ''app/models/__init__.py'', action = Create,
                    file_description = ''Models package initialization'',
                    details = [''Empty __init__.py file'']\<rparr>]
                  @ (if hasFintech analysis
                     then [\<lparr>path = ''app/models/loan.py'', action = Create,
                            file_description = ''Loan model definition'',
                            details = [''SQLAlchemy model for loans table'',
                                       ''Credit score and payment history'',
                                       ''Compliance and audit fields'',
                                       ''Define relationships and constraints'']\<rparr>]
                     else if hasEcommerce analysis
                     then [\<lparr>path = ''app/models/product.py'', action = Create,
                            file_description = ''Product model definition'',
                            details = [''SQLAlchemy model for products table'',
                                       ''Category and inventory relationships'',
                                       ''Price and variant management'',
                                       ''Define relationships and constraints'']\<rparr>]
                     else [\<lparr>path = ''app/models/base.py'', action = Create,
                            file_description = ''Base model definition'',
                            details = [''SQLAlchemy base model'',
                                       ''Common fields and relationships'',
                                       ''Add validation and indexes'']\<rparr>])
                  @ [\<lparr>path = ''alembic.ini'', action = Create,
                      file_description = ''Alembic configuration'',
                      details = [''Database migration tool setup'',
                                 ''Connection string configuration'']\<rparr>,
                     \<lparr>path = ''alembic/env.py'', action = Create,
                      file_description = ''Alembic environment configuration'',
                      details = [''Migration environment setup'',
                                 ''Model metadata configuration'']\<rparr>]
             else [\<lparr>path = ''src/database/schema.sql'', action = Create,
                    file_description = ''Database schema definition'',
                    details = [''Create tables based on domain requirements'',
                               ''Define relationships and constraints'',
                               ''Add indexes for performance'']\<rparr>,
                   \<lparr>path = ''src/database/migrations/001_initial.sql'', action = Create,
                    file_description = ''Initial database migration'',
                    details = [''Create migration script'',
                               ''Include rollback instructions'',
                               ''Add data seeding if needed'']\<rparr>]);
          files = files @ (if hasAuth analysis
                           then [\<lparr>path = ''src/database/models/User.ts'', action = Create,
                                  file_description = ''User model definition'',
                                  details = [''Define user schema'',
                                             ''Add authentication fields'',
                                             ''Include validation rules'']\<rparr>]
                           else [])
      in files)"

definition generateDatabasePhase :: "TaskAnalysis \<Rightarrow> Phase" where
  "generateDatabasePhase analysis =
    \<lparr>phase_id = ''phase-database'',
     name = ''Database Design & Setup'',
     description = ''Design and implement database schema with proper relationships'',
     status = Ready,
     estimatedTime = Some ''45 minutes'',
     dependencies = [''phase-setup''],
     files = generateDatabasePhase_files analysis\<rparr>"

definition generateAuthPhase :: "TaskAnalysis \<Rightarrow> Phase" where
  "generateAuthPhase analysis =
    \<lparr>phase_id = ''phase-auth'',
     name = ''Authentication System'',
     description = ''Implement user authentication and authorization'',
     status = Ready,
     estimatedTime = Some ''60 minutes'',
     dependencies = [''phase-setup'', ''phase-database''],
     files = [\<lparr>path = ''src/auth/middleware.ts'', action = Create,
               file_description = ''Authentication middleware'',
               details = [''JWT token validation'',
                          ''Role-based access control'',
                          ''Session management'']\<rparr>,
              \<lparr>path = ''src/auth/routes.ts'', action = Create,
               file_description = ''Authentication routes'',
               details = [''Login and register endpoints'',
                          ''Password reset functionality'',
                          ''Token refresh mechanism'']\<rparr>,
              \<lparr>path = ''src/auth/utils.ts'', action = Create,
               file_description = ''Authentication utilities'',
               details = [''Password hashing with bcrypt'',
                          ''JWT token generation'',
                          ''Validation helpers'']\<rparr>]\<rparr>"

definition generateBackendPhase_files :: "TaskAnalysis \<Rightarrow> FileChange list" where
  "generateBackendPhase_files analysis =
     (let files =
            (if hasFastAPI analysis
             then [\<lparr>path = ''main.py'', action = Create,
                    file_description = ''FastAPI application entry point'',
                    details = [''FastAPI app initialization'',
                               ''Middleware configuration'',
                               ''Route registration'',
                               ''CORS setup'']\<rparr>,
                   \<lparr>path = ''app/routers/__init__.py'', action = Create,
                    file_description = ''Router package initialization'',
                    details = [''Empty __init__.py file'']\<rparr>]
                  @ (if hasFintech analysis
                     then [\<lparr>path = ''app/routers/loans.py'', action = Create,
                            file_description = ''Loan management API routes'',
                            details = [''Loan application endpoints'',
                                       ''Credit scoring integration'',
                                       ''Payment processing routes'',
                                       ''Compliance and audit logging'']\<rparr>]
                     else if hasEcommerce analysis
                     then [\<lparr>path = ''app/routers/products.py'', action = Create,
                            file_description = ''Product catalog API routes'',
                            details = [''Product CRUD operations'',
                                       ''Inventory management'',
                                       ''Category management'',
                                       ''Search and filtering'']\<rparr>]
                     else [\<lparr>path = ''app/routers/api.py'', action = Create,
                            file_description = ''Main API routes'',
                            details = [''RESTful endpoint structure'',
                                       ''Request/response models'',
                                       ''Error handling'',
                                       ''Database integration'']\<rparr>])
                  @ [\<lparr>path = ''app/models/__init__.py'', action = Create,
                      file_description = ''Models package initialization'',
                      details = [''Empty __init__.py file'']\<rparr>]
                  @ (if hasFintech analysis
                     then [\<lparr>path = ''app/models/loan.py'', action = Create,
                            file_description = ''Loan data models'',
                            details = [''Loan application model'',
                                       ''Credit score model'',
                                       ''Payment history model'',
                                       ''Compliance tracking model'']\<rparr>]
                     else if hasEcommerce analysis
                     then [\<lparr>path = ''app/models/product.py'', action = Create,
                            file_description = ''Product data models'',
                            details = [''Product model with variants'',
                                       ''Category model'',
                                       ''Inventory model'',
                                       ''Order model'']\<rparr>]
                     else [\<lparr>path = ''app/models/base.py'', action = Create,
                            file_description = ''Base data models'',
                            details = [''Pydantic models for validation'',
                                       ''Database models'',
                                       ''Response schemas'']\<rparr>])
                  @ [\<lparr>path = ''app/database.py'', action = Create,
                      file_description = ''Database configuration'',
                      details = [''SQLAlchemy setup'',
                                 ''Database connection'',
                                 ''Session management'']\<rparr>,
                     \<lparr>path = ''requirements.txt'', action = Create,
                      file_description = ''Python dependencies'',
                      details = [''FastAPI and Uvicorn'',
                                 ''SQLAlchemy and database drivers'',
                                 ''Pydantic for validation'']\<rparr>]
             else [\<lparr>path = ''src/server.ts'', action = Create,
                    file_description = ''Main server entry point'',
                    details = [''Express.js server setup'',
                               ''Middleware configuration'',
                               ''Route registration'']\<rparr>]
                  @ (if hasFintech analysis
                     then [\<lparr>path = ''src/routes/loans.ts'', action = Create,
                            file_description = ''Loan management routes'',
                            details = [''Loan application endpoints'',
                                       ''Credit scoring integration'',
                                       ''Payment processing routes'',
                                       ''Compliance and audit logging'']\<rparr>]
                     else if hasEcommerce analysis
                     then [\<lparr>path = ''src/routes/products.ts'', action = Create,
                            file_description = ''Product catalog routes'',
                            details = [''Product CRUD operations'',
                                       ''Inventory management'',
                                       ''Category management'',
                                       ''Search and filtering'']\<rparr>]
                     else [\<lparr>path = ''src/routes/index.ts'', action = Create,
                            file_description = ''API route definitions'',
                            details = [''RESTful endpoint structure'',
                                       ''Request validation'',
                                       ''Error handling'']\<rparr>]));
          files = files @ (if hasRealtime analysis
                           then [\<lparr>path = ''src/websocket/handler.ts'', action = Create,
                                  file_description = ''WebSocket connection handler'',
                                  details = [''Socket.io integration'',
                                             ''Room management'',
                                             ''Real-time event handling'']\<rparr>]
                           else [])
      in files)"

definition generateBackendPhase :: "TaskAnalysis \<Rightarrow> Phase" where
  "generateBackendPhase analysis =
    \<lparr>phase_id = ''phase-backend'',
     name = ''Backend API Development'',
     description = ''Build RESTful API with proper error handling and validation'',
     status = Ready,
     estimatedTime = Some ''90 minutes'',
     dependencies = (if hasDatabase analysis then [''phase-database''] else [''phase-setup'']),
     files = generateBackendPhase_files analysis\<rparr>"

definition generateFrontendPhase_files :: "TaskAnalysis \<Rightarrow> FileChange list" where
  "generateFrontendPhase_files analysis =
     (let files = [\<lparr>path = ''src/components/App.tsx'', action = Create,
                    file_description = ''Main application component'',
                    details = [''React component structure'',
                               ''State management setup'',
                               ''Routing configuration'']\<rparr>,
                   \<lparr>path = ''src/components/Layout.tsx'', action = Create,
                    file_description = ''Application layout wrapper'',
                    details = [''Header and navigation'',
                               ''Footer component'',
                               ''Responsive design'']\<rparr>];
          files = files @ (if hasFintech analysis
                           then [\<lparr>path = ''src/components/LoanApplication.tsx'', action = Create,
                                  file_description = ''Loan application form component'',
                                  details = [''Multi-step loan application form'',
                                             ''Credit score display'',
                                             ''Document upload functionality'',
                                             ''Progress tracking'']\<rparr>,
                                 \<lparr>path = ''src/components/LoanDashboard.tsx'', action = Create,
                                  file_description = ''Loan management dashboard'',
                                  details = [''Loan status overview'',
                                             ''Payment history display'',
                                             ''Compliance reporting'',
                                             ''Financial calculations'']\<rparr>]
                           else if hasEcommerce analysis
                           then [\<lparr>path = ''src/components/ProductCatalog.tsx'', action = Create,
                                  file_description = ''Product catalog component'',
                                  details = [''Product grid display'',
                                             ''Search and filtering'',
                                             ''Category navigation'',
                                             ''Product details modal'']\<rparr>,
                                 \<lparr>path = ''src/components/ShoppingCart.tsx'', action = Create,
                                  file_description = ''Shopping cart component'',
                                  details = [''Cart item management'',
                                             ''Quantity updates'',
                                             ''Price calculations'',
                                             ''Checkout integration'']\<rparr>]
                           else []);
          files = files @ (if hasAuth analysis
                           then [\<lparr>path = ''src/components/Auth/LoginForm.tsx'', action = Create,
                                  file_description = ''User login form'',
                                  details = [''Form validation'',
                                             ''API integration'',
                                             ''Error handling'']\<rparr>]
                           else [])
      in files)"

definition generateFrontendPhase :: "TaskAnalysis \<Rightarrow> Phase" where
  "generateFrontendPhase analysis =
    \<lparr>phase_id = ''phase-frontend'',
     name = ''Frontend Development'',
     description = ''Build responsive user interface with modern React patterns'',
     status = Ready,
     estimatedTime = Some ''120 minutes'',
     dependencies = (if hasBackend analysis then [''phase-backend''] else [''phase-setup'']),
     files = generateFrontendPhase_files analysis\<rparr>"

definition generateTestingPhase_files :: "TaskAnalysis \<Rightarrow> FileChange list" where
  "generateTestingPhase_files analysis =
     (let files =
            (if hasFastAPI analysis
             then [\<lparr>path = ''pytest.ini'', action = Create,
                    file_description = ''Pytest configuration'',
                    details = [''Test discovery settings'',
                               ''Coverage reporting'',
                               ''Test markers and options'']\<rparr>,
                   \<lparr>path = ''conftest.py'', action = Create,
                    file_description = ''Pytest fixtures and configuration'',
                    details = [''Test database setup'',
                               ''FastAPI test client fixtures'',
                               ''Common test utilities'']\<rparr>]
             else [\<lparr>path = ''jest.config.js'', action = Create,
                    file_description = ''Jest testing configuration'',
                    details = [''Test environment setup'',
                               ''Coverage reporting'',
                               ''Mock configurations'']\<rparr>]);
          files = files @ (if hasBackend analysis
                           then (if hasFastAPI analysis
                                 then [\<lparr>path = ''tests/test_api.py'', action = Create,
                                        file_description = ''FastAPI endpoint tests'',
                                        details = [''Integration tests for routes'',
                                                   ''Authentication testing'',
                                                   ''Error scenario coverage'',
                                                   ''Pydantic model validation'']\<rparr>]
                                 else [\<lparr>path = ''src/__tests__/api.test.ts'', action = Create,
                                        file_description = ''API endpoint tests'',
                                        details = [''Integration tests for routes'',
                                                   ''Authentication testing'',
                                                   ''Error scenario coverage'']\<rparr>])
                           else []);
          files = files @ (if hasFrontend analysis
                           then [\<lparr>path = ''src/__tests__/components.test.tsx'', action = Create,
                                  file_description = ''Component unit tests'',
                                  details = [''React Testing Library setup'',
                                             ''Component behavior testing'',
                                             ''User interaction testing'']\<rparr>]
                           else [])
      in files)"

definition generateTestingPhase :: "TaskAnalysis \<Rightarrow> Phase" where
  "generateTestingPhase analysis =
    \<lparr>phase_id = ''phase-testing'',
     name = ''Testing & Quality Assurance'',
     description = ''Implement comprehensive test suite for reliability'',
     status = Ready,
     estimatedTime = Some ''60 minutes'',
     dependencies = (if hasFrontend analysis then [''phase-frontend'']
                     else if hasBackend analysis then [''phase-backend'']
                     else [''phase-setup'']),
     files = generateTestingPhase_files analysis\<rparr>"

text \<open>\<open>generatePhases\<close>: \<open>phases.push\<close> in the fixed pipeline order.\<close>

definition generatePhases :: "TaskAnalysis \<Rightarrow> Phase list" where
  "generatePhases analysis =
     (let phases = [];
          phases = phases @ [generateSetupPhase analysis];
          phases = phases @ (if hasDatabase analysis then [generateDatabasePhase analysis] else []);
          phases = phases @ (if hasAuth analysis then [generateAuthPhase analysis] else []);
          phases = phases @ (if hasBackend analysis then [generateBackendPhase analysis] else []);
          phases = phases @ (if hasFrontend analysis then [generateFrontendPhase analysis] else []);
          phases = phases @ [generateTestingPhase analysis]
      in phases)"

definition determineTechStack :: "TaskAnalysis \<Rightarrow> string list" where
  "determineTechStack analysis =
     (let techStack = (if hasFastAPI analysis then [''Python'', ''FastAPI'', ''Uvicorn'']
                       else [''TypeScript'', ''Node.js'']);
          techStack = techStack @ (if hasFrontend analysis then [''React'', ''Tailwind CSS'']
                                   else []);
          techStack = techStack @ (if hasBackend analysis
                                   then (if hasFastAPI analysis
                                         then (if hasDatabase analysis then [''SQLAlchemy'']
                                               else [])
                                         else [''Express.js''])
                                   else []);
          techStack = techStack @ (if hasDatabase analysis
                                   then (if hasFastAPI analysis
                                         then [''PostgreSQL'', ''SQLAlchemy'']
                                         else [''PostgreSQL'', ''Prisma''])
                                   else []);
          techStack = techStack @ (if hasAuth analysis
                                   then (if hasFastAPI analysis
                                         then [''JWT'', ''python-jose'', ''passlib'']
                                         else [''JWT'', ''bcrypt''])
                                   else []);
          techStack = techStack @ (if hasRealtime analysis
                                   then (if hasFastAPI analysis then [''WebSockets'']
                                         else [''Socket.io''])
                                   else []);
          techStack = techStack @ (if hasFastAPI analysis then [''pytest'', ''black'', ''flake8'']
                                   else [''Jest'', ''ESLint'', ''Prettier''])
      in techStack)"

definition identifyRisks :: "TaskAnalysis \<Rightarrow> string list" where
  "identifyRisks analysis =
     (let risks = [];
          risks = risks @ (if complexity analysis = CxComplex
                           then [''High complexity may require additional planning and testing'']
                           else []);
          risks = risks @ (if hasAuth analysis
                           then [''Security considerations for user authentication and data protection'']
                           else []);
          risks = risks @ (if hasDatabase analysis
                           then [''Database schema changes may require careful migration planning'']
                           else []);
          risks = risks @ (if hasRealtime analysis
                           then [''Real-time features may require additional infrastructure considerations'']
                           else []);
          risks = risks @ (if ''payment'' \<in> set (features analysis)
                           then [''Payment integration requires PCI compliance and secure handling'']
                           else []);
          risks = risks @ (if projectType analysis = Fullstack
                           then [''Full-stack development requires coordination between frontend and backend teams'']
                           else [])
      in risks)"

text \<open>Template-string helpers: decimal numerals, \<open>Array.prototype.join\<close>, enum names.\<close>

function showNat :: "nat \<Rightarrow> string" where
  "showNat n = (if n < 10 then [char_of (48 + n)] else showNat (n div 10) @ [char_of (48 + n mod 10)])"
  by pat_completeness auto
termination
  by (relation "measure id") auto

fun join :: "string \<Rightarrow> string list \<Rightarrow> string" where
  "join sep [] = []"
| "join sep [x] = x"
| "join sep (x # y # ys) = x @ sep @ join sep (y # ys)"

definition projectTypeName :: "ProjectType \<Rightarrow> string" where
  "projectTypeName t =
     (case t of WebApp \<Rightarrow> ''web-app'' | Api \<Rightarrow> ''api'' | Cli \<Rightarrow> ''cli''
      | Library \<Rightarrow> ''library'' | Fullstack \<Rightarrow> ''fullstack'')"

text \<open>\<open>planTask\<close>; the reading of \<open>Date.now()\<close> is the parameter \<open>now\<close>.\<close>

definition planTask :: "nat \<Rightarrow> string \<Rightarrow> Plan" where
  "planTask now task =
     (let analysis = analyzeTask task;
          phases = generatePhases analysis
      in \<lparr>plan_id = ''plan-'' @ showNat now,
          plan_task = task,
          overview = ''Implementation plan with '' @ showNat (length phases)
                     @ '' phases. Each phase contains detailed file-level instructions for building a ''
                     @ projectTypeName (projectType analysis) @ '' with ''
                     @ join '', '' (features analysis) @ '' features.'',
          phases = phases,
          techStack = determineTechStack analysis,
          risks = identifyRisks analysis,
          generationMethod = RuleBased\<rparr>)"

text \<open>
  A check used in the proofs: walking the phases in order, every dependency of a phase is
  among the ids \<open>seen\<close> before it.
\<close>

fun dependenciesPlacedEarlier :: "string list \<Rightarrow> Phase list \<Rightarrow> bool" where
  "dependenciesPlacedEarlier seen [] = True"
| "dependenciesPlacedEarlier seen (p # ps) =
     (set (dependencies p) \<subseteq> set seen \<and> dependenciesPlacedEarlier (seen @ [phase_id p]) ps)"

section \<open>JSON values and JavaScript value tests\<close>

text \<open>
  The value \<open>JSON.parse\<close> returns.  An object is an association list (the parser leaves
  no duplicate keys); \<open>undefined\<close> is \<open>None\<close> of \<open>json option\<close>.
\<close>

datatype json =
    JNull
  | JBool bool
  | JNum rat
  | JStr string
  | JArr "json list"
  | JObj "(string \<times> json) list"

text \<open>
  \<open>value.key\<close> on a value that is not \<open>null\<close>: an own property of an object; the
  property names read by the service are not defined on arrays, strings, numbers or
  booleans, where the access yields \<open>undefined\<close>.
\<close>

definition getProp :: "json \<Rightarrow> string \<Rightarrow> json option" where
  "getProp v key = (case v of JObj members \<Rightarrow> map_of members key | _ \<Rightarrow> None)"

text \<open>Truthiness (\<open>!x\<close> is its negation), \<open>typeof\<close> tests and \<open>Array.isArray\<close>.\<close>

definition truthy :: "json option \<Rightarrow> bool" where
  "truthy v =
     (case v of
        None \<Rightarrow> False
      | Some JNull \<Rightarrow> False
      | Some (JBool b) \<Rightarrow> b
      | Some (JNum n) \<Rightarrow> n \<noteq> 0
      | Some (JStr s) \<Rightarrow> s \<noteq> []
      | Some (JArr xs) \<Rightarrow> True
      | Some (JObj members) \<Rightarrow> True)"

definition typeofString :: "json option \<Rightarrow> bool" where
  "typeofString v = (case v of Some (JStr s) \<Rightarrow> True | _ \<Rightarrow> False)"

definition typeofNumber :: "json option \<Rightarrow> bool" where
  "typeofNumber v = (case v of Some (JNum n) \<Rightarrow> True | _ \<Rightarrow> False)"

definition typeofObject :: "json option \<Rightarrow> bool" where
  "typeofObject v =
     (case v of Some JNull \<Rightarrow> True | Some (JArr xs) \<Rightarrow> True | Some (JObj members) \<Rightarrow> True
      | _ \<Rightarrow> False)"

definition isArray :: "json option \<Rightarrow> bool" where
  "isArray v = (case v of Some (JArr xs) \<Rightarrow> True | _ \<Rightarrow> False)"

section \<open>Text handling of the enhancement service (openaiService.ts)\<close>

text \<open>\<open>\s\<close> on 8-bit code units: tab, line feed, vertical tab, form feed, carriage return,
  space and no-break space; line terminators are line feed and carriage return.\<close>

definition isSpace :: "char \<Rightarrow> bool" where
  "isSpace c = (of_char c \<in> {9, 10, 11, 12, 13, 32, 160 :: nat})"

definition isLineTerminator :: "char \<Rightarrow> bool" where
  "isLineTerminator c = (of_char c \<in> {10, 13 :: nat})"

definition trim :: "string \<Rightarrow> string" where
  "trim s = rev (dropWhile isSpace (rev (dropWhile isSpace s)))"

definition endsWith :: "string \<Rightarrow> char \<Rightarrow> bool" where
  "endsWith s c = (s \<noteq> [] \<and> last s = c)"

text \<open>
  \<open>s.replace(regex, replacement)\<close> with the \<open>g\<close> flag, for a pattern that never matches
  the empty string: \<open>matchAt\<close> tells whether the pattern matches at the head of its
  argument, and then gives the replacement text and the rest after the match; the scan
  goes on after the match, or one character further when there is none.
\<close>

function replaceAll :: "(string \<Rightarrow> (string \<times> string) option) \<Rightarrow> string \<Rightarrow> string" where
  "replaceAll matchAt [] = []"
| "replaceAll matchAt (c # cs) =
     (case matchAt (c # cs) of
        Some (out, rest) \<Rightarrow>
          if length rest < length (c # cs) then out @ replaceAll matchAt rest
          else c # replaceAll matchAt cs
      | None \<Rightarrow> c # replaceAll matchAt cs)"
  by pat_completeness auto
termination
  by (relation "measure (\<lambda>(matchAt, s). length s)") auto

text \<open>\<open>/```json\s*/\<close> and \<open>/```\s*/\<close>, replaced by the empty string.\<close>

definition matchFence :: "string \<Rightarrow> string \<Rightarrow> (string \<times> string) option" where
  "matchFence fence s =
     (if fence \<noteq> [] \<and> startsWith s fence
      then Some ([], dropWhile isSpace (drop (length fence) s)) else None)"

text \<open>\<open>/,(\s*[}\]])/\<close>, replaced by \<open>$1\<close>.\<close>

definition matchTrailingComma :: "string \<Rightarrow> (string \<times> string) option" where
  "matchTrailingComma s =
     (case s of
        [] \<Rightarrow> None
      | c # cs \<Rightarrow>
          if c = CHR '','' then
            (case dropWhile isSpace cs of
               [] \<Rightarrow> None
             | b # rest \<Rightarrow>
                 if b = CHR ''}'' \<or> b = CHR '']''
                 then Some (takeWhile isSpace cs @ [b], rest) else None)
          else None)"

text \<open>\<open>/([{,]\s*)'([^']*)'(\s*[,:])/\<close>, replaced by \<open>$1"$2"$3\<close>.\<close>

definition matchSingleQuoted :: "string \<Rightarrow> (string \<times> string) option" where
  "matchSingleQuoted s =
     (case s of
        [] \<Rightarrow> None
      | c # cs \<Rightarrow>
          if c = CHR ''{'' \<or> c = CHR '','' then
            (case dropWhile isSpace cs of
               [] \<Rightarrow> None
             | q # afterOpen \<Rightarrow>
                 if q = CHR 0x27 then
                   (case dropWhile (\<lambda>x. x \<noteq> CHR 0x27) afterOpen of
                      [] \<Rightarrow> None
                    | q2 # afterClose \<Rightarrow>
                        (case dropWhile isSpace afterClose of
                           [] \<Rightarrow> None
                         | d # rest \<Rightarrow>
                             if d = CHR '','' \<or> d = CHR '':''
                             then Some (c # takeWhile isSpace cs @ [CHR 0x22]
                                        @ takeWhile (\<lambda>x. x \<noteq> CHR 0x27) afterOpen @ [CHR 0x22]
                                        @ takeWhile isSpace afterClose @ [d], rest)
                             else None))
                 else None)
          else None)"

text \<open>\<open>/\/\/.*$/\<close> with the \<open>m\<close> flag, replaced by the empty string.\<close>

definition matchLineComment :: "string \<Rightarrow> (string \<times> string) option" where
  "matchLineComment s =
     (if startsWith s ''//''
      then Some ([], dropWhile (\<lambda>x. \<not> isLineTerminator x) (drop 2 s)) else None)"

text \<open>\<open>/\/\*[\s\S]*?\*\//\<close>, replaced by the empty string.\<close>

fun afterCloser :: "string \<Rightarrow> string option" where
  "afterCloser [] = None"
| "afterCloser (c # cs) = (if startsWith (c # cs) ''*/'' then Some (drop 1 cs) else afterCloser cs)"

definition matchBlockComment :: "string \<Rightarrow> (string \<times> string) option" where
  "matchBlockComment s =
     (if startsWith s ''/*''
      then (case afterCloser (drop 2 s) of Some rest \<Rightarrow> Some ([], rest) | None \<Rightarrow> None)
      else None)"

text \<open>\<open>/\[\s*\]/\<close>, replaced by \<open>[]\<close>.\<close>

definition matchEmptyArray :: "string \<Rightarrow> (string \<times> string) option" where
  "matchEmptyArray s =
     (case s of
        [] \<Rightarrow> None
      | c # cs \<Rightarrow>
          if c = CHR ''['' then
            (case dropWhile isSpace cs of
               [] \<Rightarrow> None
             | b # rest \<Rightarrow> if b = CHR '']'' then Some (''[]'', rest) else None)
          else None)"

definition cleanJsonString :: "string \<Rightarrow> string" where
  "cleanJsonString jsonString =
     (let jsonString = replaceAll matchTrailingComma jsonString;
          jsonString = replaceAll matchSingleQuoted jsonString;
          jsonString = replaceAll matchLineComment jsonString;
          jsonString = replaceAll matchBlockComment jsonString;
          jsonString = replaceAll matchEmptyArray jsonString
      in jsonString)"

text \<open>
  \<open>const jsonStart = s.indexOf('{'); if (jsonStart > 0) s = s.substring(jsonStart)\<close>.
\<close>

definition fromFirstBrace :: "string \<Rightarrow> string" where
  "fromFirstBrace s =
     (if CHR ''{'' \<in> set s then dropWhile (\<lambda>x. x \<noteq> CHR ''{'') s else s)"

text \<open>
  \<open>s.match(/\{[\s\S]*\}/)\<close>: from the first opening brace to the last closing brace
  after it, when both exist.
\<close>

definition matchBraces :: "string \<Rightarrow> string option" where
  "matchBraces s =
     (case dropWhile (\<lambda>x. x \<noteq> CHR ''{'') s of
        [] \<Rightarrow> None
      | b # body \<Rightarrow>
          if CHR ''}'' \<in> set body
          then Some (b # rev (dropWhile (\<lambda>x. x \<noteq> CHR ''}'') (rev body)))
          else None)"

section \<open>Enhancement service (openaiService.ts)\<close>

text \<open>What a \<open>throw\<close> carries; each constructor stands for one error of the source.\<close>

datatype Failure =
    ClientNotInitialized
  | ModelCallFailed
  | EmptyResponse
  | TruncatedJson
  | NoJsonObject
  | JsonSyntaxError
  | TypeError
  | InvalidSchema

text \<open>
  \<open>validateResponse\<close>.  The loop over \<open>response.files\<close> reads properties of each
  entry, which throws a \<open>TypeError\<close> on a \<open>null\<close> entry.
\<close>

fun validateFiles :: "json list \<Rightarrow> Failure + bool" where
  "validateFiles [] = Inr True"
| "validateFiles (file # rest) =
     (if file = JNull then Inl TypeError
      else if \<not> typeofString (getProp file ''path'') \<or> \<not> isArray (getProp file ''details'')
              \<or> \<not> typeofString (getProp file ''architecture_notes'')
              \<or> \<not> typeofString (getProp file ''implementation_guidance'')
              \<or> \<not> typeofString (getProp file ''security_considerations'')
              \<or> \<not> typeofString (getProp file ''performance_tips'')
      then Inr False
      else (case getProp file ''details'' of
              Some (JArr ds) \<Rightarrow>
                if list_ex (\<lambda>detail. \<not> typeofString (Some detail)) ds then Inr False
                else validateFiles rest
            | _ \<Rightarrow> Inr False))"

definition validateResponse :: "json \<Rightarrow> Failure + bool" where
  "validateResponse resp =
     (if \<not> truthy (Some resp) \<or> \<not> typeofObject (Some resp) then Inr False
      else if \<not> typeofString (getProp resp ''description'')
              \<or> \<not> typeofString (getProp resp ''reasoning'')
      then Inr False
      else if \<not> truthy (getProp resp ''architecture'')
              \<or> \<not> typeofObject (getProp resp ''architecture'')
      then Inr False
      else (case getProp resp ''architecture'' of
              None \<Rightarrow> Inr False
            | Some arch \<Rightarrow>
        if \<not> isArray (getProp arch ''patterns'') \<or> \<not> isArray (getProp arch ''design_decisions'')
           \<or> \<not> isArray (getProp arch ''security_measures'')
           \<or> \<not> isArray (getProp arch ''performance_optimizations'')
           \<or> \<not> typeofString (getProp arch ''scalability_approach'')
        then Inr False
        else if \<not> truthy (getProp resp ''implementation'')
                \<or> \<not> typeofObject (getProp resp ''implementation'')
        then Inr False
        else (case getProp resp ''implementation'' of
                None \<Rightarrow> Inr False
              | Some impl \<Rightarrow>
          if \<not> isArray (getProp impl ''best_practices'')
             \<or> \<not> typeofString (getProp impl ''code_structure'')
             \<or> \<not> typeofString (getProp impl ''error_handling'')
             \<or> \<not> typeofString (getProp impl ''testing_strategy'')
             \<or> \<not> typeofString (getProp impl ''deployment_considerations'')
          then Inr False
          else (case getProp resp ''files'' of
                  Some (JArr fs) \<Rightarrow>
                    (case validateFiles fs of
                       Inl e \<Rightarrow> Inl e
                     | Inr False \<Rightarrow> Inr False
                     | Inr True \<Rightarrow>
                         if getProp resp ''estimated_tokens'' \<noteq> None
                            \<and> \<not> typeofNumber (getProp resp ''estimated_tokens'')
                         then Inr False else Inr True)
                | _ \<Rightarrow> Inr False))))"

definition strings :: "string list \<Rightarrow> json" where
  "strings xs = JArr (map JStr xs)"

definition createFallbackResponse :: "Phase \<Rightarrow> json" where
  "createFallbackResponse phase =
     JObj
      [(''description'',
        JStr (''Enhanced implementation details for '' @ name phase
              @ ''. This phase focuses on '' @ toLowerCase (description phase) @ ''.'')),
       (''reasoning'',
        JStr ''This is a fallback response generated when AI enhancement failed. The base plan remains intact and functional.''),
       (''architecture'',
        JObj
         [(''patterns'', strings [''MVC Pattern'', ''Repository Pattern'']),
          (''design_decisions'',
           strings [''Modular architecture for maintainability'', ''Separation of concerns'']),
          (''scalability_approach'', JStr ''Horizontal scaling with load balancing''),
          (''security_measures'',
           strings [''Input validation'', ''Authentication and authorization'']),
          (''performance_optimizations'',
           strings [''Caching strategies'', ''Database indexing''])]),
       (''implementation'',
        JObj
         [(''best_practices'',
           strings [''Follow SOLID principles'', ''Use TypeScript for type safety'',
                    ''Implement proper error handling'']),
          (''code_structure'',
           JStr ''Organize code into modules with clear separation of concerns''),
          (''error_handling'',
           JStr ''Implement comprehensive error handling with proper logging''),
          (''testing_strategy'',
           JStr ''Unit tests, integration tests, and end-to-end testing''),
          (''deployment_considerations'',
           JStr ''Containerization with Docker, CI/CD pipeline setup'')]),
       (''files'',
        JArr (map (\<lambda>file.
               JObj
                [(''path'', JStr (path file)),
                 (''details'',
                  strings (details file
                    @ [''Additional implementation considerations will be added during development'',
                       ''Follow best practices for the specific technology stack''])),
                 (''architecture_notes'',
                  JStr ''Follow established architectural patterns for this file type''),
                 (''implementation_guidance'',
                  JStr ''Implement with focus on maintainability and scalability''),
                 (''security_considerations'',
                  JStr ''Ensure proper input validation and security measures''),
                 (''performance_tips'',
                  JStr ''Optimize for performance and consider caching where appropriate'')])
              (files phase)))]"

text \<open>
  \<open>convertSimpleToFullResponse\<close>.  Reading a property of \<open>null\<close> and calling
  \<open>.map\<close> on a truthy value that is not an array throw a \<open>TypeError\<close>.  A property
  whose value is \<open>undefined\<close> is left out of the object.
\<close>

definition orElse :: "json option \<Rightarrow> json \<Rightarrow> json" where
  "orElse v d = (if truthy v then (case v of Some x \<Rightarrow> x | None \<Rightarrow> d) else d)"

definition convertSimpleFile :: "json \<Rightarrow> Failure + json" where
  "convertSimpleFile file =
     (if file = JNull then Inl TypeError
      else Inr (JObj
        ((case getProp file ''path'' of Some p \<Rightarrow> [(''path'', p)] | None \<Rightarrow> [])
         @ [(''details'', orElse (getProp file ''details'') (JArr [])),
            (''architecture_notes'', JStr ''Follow established patterns''),
            (''implementation_guidance'', JStr ''Implement with best practices''),
            (''security_considerations'', JStr ''Ensure proper validation''),
            (''performance_tips'', JStr ''Optimize for performance'')])))"

fun convertSimpleFiles :: "json list \<Rightarrow> Failure + json list" where
  "convertSimpleFiles [] = Inr []"
| "convertSimpleFiles (file # rest) =
     (case convertSimpleFile file of
        Inl e \<Rightarrow> Inl e
      | Inr f \<Rightarrow> (case convertSimpleFiles rest of Inl e \<Rightarrow> Inl e | Inr fs \<Rightarrow> Inr (f # fs)))"

definition convertSimpleToFullResponse :: "json \<Rightarrow> Phase \<Rightarrow> Failure + json" where
  "convertSimpleToFullResponse simpleResponse phase =
     (if simpleResponse = JNull then Inl TypeError
      else
        (case (case orElse (getProp simpleResponse ''files'') (JArr []) of
                 JArr fs \<Rightarrow> convertSimpleFiles fs
               | _ \<Rightarrow> Inl TypeError) of
           Inl e \<Rightarrow> Inl e
         | Inr convertedFiles \<Rightarrow>
             Inr (JObj
              [(''description'',
                orElse (getProp simpleResponse ''description'')
                       (JStr (''Enhanced implementation for '' @ name phase))),
               (''reasoning'',
                orElse (getProp simpleResponse ''reasoning'')
                       (JStr ''AI-enhanced implementation with best practices'')),
               (''architecture'',
                JObj
                 [(''patterns'', strings [''MVC Pattern'', ''Repository Pattern'']),
                  (''design_decisions'', strings [''Modular architecture'', ''Separation of concerns'']),
                  (''scalability_approach'', JStr ''Horizontal scaling with load balancing''),
                  (''security_measures'', strings [''Input validation'', ''Authentication'']),
                  (''performance_optimizations'', strings [''Caching'', ''Database indexing''])]),
               (''implementation'',
                JObj
                 [(''best_practices'', strings [''Follow SOLID principles'', ''Use TypeScript'']),
                  (''code_structure'', JStr ''Organize code into modules''),
                  (''error_handling'', JStr ''Comprehensive error handling with logging''),
                  (''testing_strategy'', JStr ''Unit and integration testing''),
                  (''deployment_considerations'', JStr ''Containerization with Docker'')]),
               (''files'', JArr convertedFiles)])))"

text \<open>
  One call of \<open>client.chat.completions.create\<close>: it throws (or reading
  \<open>response.choices[0]\<close> throws, inside the same \<open>try\<close>), or it resolves and
  \<open>response.choices[0]?.message?.content\<close> is a string or absent.  The external model is
  an oracle from the number of calls made so far to the reply; the prompt, the analysis and
  the options only travel to the model.  \<open>JSON.parse\<close> is the parameter
  \<open>JSON_parse\<close>, with \<open>None\<close> for a \<open>SyntaxError\<close>.
\<close>

datatype ModelReply = Throws | Content "string option"

text \<open>The body of the \<open>try\<close> block of one attempt.\<close>

definition mainAttempt :: "(string \<Rightarrow> json option) \<Rightarrow> ModelReply \<Rightarrow> Failure + json" where
  "mainAttempt JSON_parse reply =
     (case reply of
        Throws \<Rightarrow> Inl ModelCallFailed
      | Content None \<Rightarrow> Inl EmptyResponse
      | Content (Some content) \<Rightarrow>
          if content = [] then Inl EmptyResponse
          else
            (let jsonContent = trim content;
                 jsonContent = replaceAll (matchFence ''```'')
                                 (replaceAll (matchFence ''```json'') jsonContent);
                 jsonContent = fromFirstBrace jsonContent
             in if \<not> endsWith jsonContent CHR ''}'' then Inl TruncatedJson
                else if \<not> startsWith jsonContent ''{'' \<or> \<not> endsWith jsonContent CHR ''}''
                then Inl NoJsonObject
                else (case JSON_parse jsonContent of
                        None \<Rightarrow> Inl JsonSyntaxError
                      | Some parsed \<Rightarrow>
                          (case validateResponse parsed of
                             Inl e \<Rightarrow> Inl e
                           | Inr True \<Rightarrow> Inr parsed
                           | Inr False \<Rightarrow> Inl InvalidSchema))))"

text \<open>The repair call with its own \<open>try\<close>/\<open>catch\<close>: \<open>Some\<close> when it returns.\<close>

definition repairAttempt :: "(string \<Rightarrow> json option) \<Rightarrow> ModelReply \<Rightarrow> json option" where
  "repairAttempt JSON_parse reply =
     (case reply of
        Throws \<Rightarrow> None
      | Content None \<Rightarrow> None
      | Content (Some repairContent) \<Rightarrow>
          if repairContent = [] then None
          else
            (let repairJsonContent =
                   (case matchBraces repairContent of
                      Some m \<Rightarrow> m
                    | None \<Rightarrow> trim repairContent)
             in case JSON_parse repairJsonContent of
                  None \<Rightarrow> None
                | Some repairParsed \<Rightarrow>
                    (case validateResponse repairParsed of
                       Inr True \<Rightarrow> Some repairParsed
                     | _ \<Rightarrow> None)))"

text \<open>The simple-schema call with its own \<open>try\<close>/\<open>catch\<close>: \<open>Some\<close> when it returns.\<close>

definition simpleAttempt ::
    "(string \<Rightarrow> json option) \<Rightarrow> ModelReply \<Rightarrow> Phase \<Rightarrow> json option" where
  "simpleAttempt JSON_parse reply phase =
     (case reply of
        Throws \<Rightarrow> None
      | Content None \<Rightarrow> None
      | Content (Some simpleContent) \<Rightarrow>
          if simpleContent = [] then None
          else
            (let simpleJson = trim simpleContent;
                 simpleJson = fromFirstBrace simpleJson;
                 simpleJson = (case matchBraces simpleJson of Some m \<Rightarrow> m | None \<Rightarrow> simpleJson);
                 simpleJson = cleanJsonString simpleJson
             in if startsWith simpleJson ''{'' \<and> endsWith simpleJson CHR ''}''
                then (case JSON_parse simpleJson of
                        None \<Rightarrow> None
                      | Some simpleParsed \<Rightarrow>
                          (case convertSimpleToFullResponse simpleParsed phase of
                             Inl e \<Rightarrow> None
                           | Inr full \<Rightarrow> Some full))
                else None))"

definition maxAttempts :: nat where
  "maxAttempts = 3"

text \<open>
  The \<open>while (attempts < maxAttempts)\<close> loop of \<open>performEnhancement\<close>; \<open>calls\<close>
  counts the calls made to the external model, and is returned with the response.
\<close>

function performEnhancementLoop ::
    "(string \<Rightarrow> json option) \<Rightarrow> (nat \<Rightarrow> ModelReply) \<Rightarrow> Phase \<Rightarrow> nat \<Rightarrow> nat \<Rightarrow> json \<times> nat" where
  "performEnhancementLoop JSON_parse model phase attempts calls =
     (if attempts < maxAttempts then
        (case mainAttempt JSON_parse (model calls) of
           Inr parsed \<Rightarrow> (parsed, calls + 1)
         | Inl error \<Rightarrow>
             if attempts + 1 \<ge> maxAttempts then
               (if attempts + 1 = maxAttempts then
                  (case simpleAttempt JSON_parse (model (calls + 1)) phase of
                     Some full \<Rightarrow> (full, calls + 2)
                   | None \<Rightarrow> (createFallbackResponse phase, calls + 2))
                else (createFallbackResponse phase, calls + 1))
             else if attempts + 1 = maxAttempts - 1 then
               (case repairAttempt JSON_parse (model (calls + 1)) of
                  Some repaired \<Rightarrow> (repaired, calls + 2)
                | None \<Rightarrow> performEnhancementLoop JSON_parse model phase (attempts + 1) (calls + 2))
             else performEnhancementLoop JSON_parse model phase (attempts + 1) (calls + 1))
      else (createFallbackResponse phase, calls))"
  by pat_completeness auto
termination
  by (relation "measure (\<lambda>(JSON_parse, model, phase, attempts, calls). maxAttempts - attempts)")
     auto

declare performEnhancementLoop.simps [simp del]

definition performEnhancement ::
    "(string \<Rightarrow> json option) \<Rightarrow> (nat \<Rightarrow> ModelReply) \<Rightarrow> Phase \<Rightarrow> nat \<Rightarrow> json \<times> nat" where
  "performEnhancement JSON_parse model phase calls =
     performEnhancementLoop JSON_parse model phase 0 calls"

record CacheEntry =
  response :: json
  timestamp :: int
  ttl :: int

text \<open>
  The state of one \<open>OpenAIEnhancementService\<close>: whether the constructor got an API key,
  the cache, and the number of requests in flight.  Calls are made one after the other
  here, so the request queue stays empty.
\<close>

record Service =
  client :: bool
  cache :: "string \<Rightarrow> CacheEntry option"
  activeRequests :: nat

definition TTL :: int where
  "TTL = 24 * 60 * 60 * 1000"

definition MAX_CONCURRENCY :: nat where
  "MAX_CONCURRENCY = 3"

text \<open>\<open>generateCacheKey\<close>; the SHA-256 digest is the parameter \<open>sha256\<close>.\<close>

definition cacheKeyInput :: "string \<Rightarrow> string \<Rightarrow> FileChange list \<Rightarrow> string" where
  "cacheKeyInput taskText phaseName fileList =
     (let normalizedTask = trim (toLowerCase taskText);
          filePaths = join '','' (sort (map path fileList))
      in normalizedTask @ ''|'' @ phaseName @ ''|'' @ filePaths)"

definition generateCacheKey ::
    "(string \<Rightarrow> string) \<Rightarrow> string \<Rightarrow> string \<Rightarrow> FileChange list \<Rightarrow> string" where
  "generateCacheKey sha256 taskText phaseName fileList =
     sha256 (cacheKeyInput taskText phaseName fileList)"

text \<open>
  How an \<open>async\<close> call ends: it resolves, it rejects, or it stays suspended in
  \<open>waitForSlot\<close> (no other request is in flight to release a slot).
\<close>

datatype 'a Outcome = Resolved 'a | Rejected Failure | AwaitingSlot

text \<open>
  \<open>enhancePhase\<close>.  \<open>now\<close> is \<open>Date.now()\<close> at the cache lookup and \<open>storedAt\<close>
  is \<open>Date.now()\<close> when the response is cached.  The result holds the outcome, the
  service afterwards and the number of model calls made so far.  \<open>enhanceUncached\<close> is
  the part after the cache lookup: \<open>waitForSlot\<close>, the \<open>try\<close>/\<open>finally\<close> around
  \<open>performEnhancement\<close>, and the cache update.
\<close>

definition enhanceUncached ::
    "(string \<Rightarrow> json option) \<Rightarrow> (nat \<Rightarrow> ModelReply) \<Rightarrow> Service \<Rightarrow> nat \<Rightarrow> int \<Rightarrow> Phase \<Rightarrow> string
     \<Rightarrow> json Outcome \<times> Service \<times> nat" where
  "enhanceUncached JSON_parse model service calls storedAt phase cacheKey =
     (if \<not> activeRequests service < MAX_CONCURRENCY then (AwaitingSlot, service, calls)
      else
        (let service = service\<lparr>activeRequests := activeRequests service + 1\<rparr>
         in case performEnhancement JSON_parse model phase calls of
              (enhanced, calls') \<Rightarrow>
                (let service = service\<lparr>cache := (cache service)(cacheKey \<mapsto>
                                 \<lparr>response = enhanced, timestamp = storedAt, ttl = TTL\<rparr>)\<rparr>;
                     service = service\<lparr>activeRequests := activeRequests service - 1\<rparr>
                 in (Resolved enhanced, service, calls'))))"

definition enhancePhase ::
    "(string \<Rightarrow> json option) \<Rightarrow> (string \<Rightarrow> string) \<Rightarrow> (nat \<Rightarrow> ModelReply)
     \<Rightarrow> Service \<Rightarrow> nat \<Rightarrow> int \<Rightarrow> int \<Rightarrow> Phase \<Rightarrow> string
     \<Rightarrow> json Outcome \<times> Service \<times> nat" where
  "enhancePhase JSON_parse sha256 model service calls now storedAt phase taskText =
     (if \<not> client service then (Rejected ClientNotInitialized, service, calls)
      else
        (let cacheKey = generateCacheKey sha256 taskText (name phase) (files phase)
         in case cache service cacheKey of
              Some cached \<Rightarrow>
                if now - timestamp cached < ttl cached
                then (Resolved (response cached), service, calls)
                else enhanceUncached JSON_parse model service calls storedAt phase cacheKey
            | None \<Rightarrow> enhanceUncached JSON_parse model service calls storedAt phase cacheKey))"

text \<open>
  The structural schema of an enhancement response, in the words of the specification:
  string description and reasoning; an architecture object with four string-array fields
  and one string field; an implementation object with one array and four string fields; a
  files array whose entries have a string path, a string-array details and four string
  fields.
\<close>

definition isStringArray :: "json option \<Rightarrow> bool" where
  "isStringArray v =
     (case v of Some (JArr xs) \<Rightarrow> list_all (\<lambda>x. typeofString (Some x)) xs | _ \<Rightarrow> False)"

definition schemaFile :: "json \<Rightarrow> bool" where
  "schemaFile file =
     (typeofString (getProp file ''path'') \<and> isStringArray (getProp file ''details'')
      \<and> typeofString (getProp file ''architecture_notes'')
      \<and> typeofString (getProp file ''implementation_guidance'')
      \<and> typeofString (getProp file ''security_considerations'')
      \<and> typeofString (getProp file ''performance_tips''))"

definition structuralSchema :: "json \<Rightarrow> bool" where
  "structuralSchema resp =
     (typeofString (getProp resp ''description'') \<and> typeofString (getProp resp ''reasoning'')
      \<and> (case getProp resp ''architecture'' of
            Some (JObj a) \<Rightarrow>
              isStringArray (getProp (JObj a) ''patterns'')
              \<and> isStringArray (getProp (JObj a) ''design_decisions'')
              \<and> isStringArray (getProp (JObj a) ''security_measures'')
              \<and> isStringArray (getProp (JObj a) ''performance_optimizations'')
              \<and> typeofString (getProp (JObj a) ''scalability_approach'')
          | _ \<Rightarrow> False)
      \<and> (case getProp resp ''implementation'' of
            Some (JObj i) \<Rightarrow>
              isArray (getProp (JObj i) ''best_practices'')
              \<and> typeofString (getProp (JObj i) ''code_structure'')
              \<and> typeofString (getProp (JObj i) ''error_handling'')
              \<and> typeofString (getProp (JObj i) ''testing_strategy'')
              \<and> typeofString (getProp (JObj i) ''deployment_considerations'')
          | _ \<Rightarrow> False)
      \<and> (case getProp resp ''files'' of
            Some (JArr fs) \<Rightarrow> list_all schemaFile fs
          | _ \<Rightarrow> False))"

text \<open>
  Sample surroundings for concrete runs: a service built with an API key, a model that
  answers every call with the same text, and the values of \<open>JSON.parse\<close> on two texts
  (an object with a trailing comma is a syntax error).
\<close>

definition freshService :: Service where
  "freshService = \<lparr>client = True, cache = (\<lambda>k. None), activeRequests = 0\<rparr>"

definition constantModel :: "string \<Rightarrow> nat \<Rightarrow> ModelReply" where
  "constantModel text n = Content (Some text)"

definition failingModel :: "nat \<Rightarrow> ModelReply" where
  "failingModel n = Throws"

definition sampleParse :: "string \<Rightarrow> json option" where
  \<open>sampleParse s =
     (if s = ''{"description": 5}'' then Some (JObj [(''description'', JNum 5)]) else None)\<close>

text \<open>
  A reply that none of the three call sites can use: the main attempt throws, and the
  repair and simple-schema attempts return nothing.
\<close>

definition replyUnusable :: "(string \<Rightarrow> json option) \<Rightarrow> Phase \<Rightarrow> ModelReply \<Rightarrow> bool" where
  "replyUnusable JSON_parse phase reply =
     (isl (mainAttempt JSON_parse reply) \<and> repairAttempt JSON_parse reply = None
      \<and> simpleAttempt JSON_parse reply phase = None)"

text \<open>
  What \<open>convertSimpleToFullResponse\<close> builds from the parsed object
  \<open>{"description": 5}\<close>.
\<close>

definition numberDescriptionResponse :: json where
  "numberDescriptionResponse = JObj
              [(''description'', JNum 5),
               (''reasoning'', JStr ''AI-enhanced implementation with best practices''),
               (''architecture'',
                JObj
                 [(''patterns'', strings [''MVC Pattern'', ''Repository Pattern'']),
                  (''design_decisions'', strings [''Modular architecture'', ''Separation of concerns'']),
                  (''scalability_approach'', JStr ''Horizontal scaling with load balancing''),
                  (''security_measures'', strings [''Input validation'', ''Authentication'']),
                  (''performance_optimizations'', strings [''Caching'', ''Database indexing''])]),
               (''implementation'',
                JObj
                 [(''best_practices'', strings [''Follow SOLID principles'', ''Use TypeScript'']),
                  (''code_structure'', JStr ''Organize code into modules''),
                  (''error_handling'', JStr ''Comprehensive error handling with logging''),
                  (''testing_strategy'', JStr ''Unit and integration testing''),
                  (''deployment_considerations'', JStr ''Containerization with Docker'')]),
               (''files'', JArr [])]"

section \<open>Plan orchestrator (planOrchestrator.ts, both variants)\<close>

text \<open>
  An enhanced phase takes \<open>description\<close>, \<open>reasoning\<close> and \<open>files\<close> from the
  enhancement response as they are (\<open>None\<close> for \<open>undefined\<close>).  An entry of
  \<open>enhancedPhases\<close> has the type \<open>EnhancedPhase | 'failed'\<close>.
\<close>

record EnhancedPhase =
  enh_id :: string
  enh_name :: string
  enh_description :: "json option"
  enh_reasoning :: "json option"
  enh_files :: "json option"
  enh_estimatedTime :: "string option"

datatype EnhancedEntry = EnhancedValue EnhancedPhase | FailedMarker

record Progress =
  current :: nat
  total :: nat

record PlanEnhancementState =
  taskHash :: string
  basePlan :: Plan
  state_analysis :: TaskAnalysis
  enhancedPhases :: "nat \<Rightarrow> EnhancedEntry option"
  phaseStatuses :: "nat \<Rightarrow> Status option"
  progress :: Progress
  isComplete :: bool
  startTime :: nat

definition generateTaskHash :: "(string \<Rightarrow> string) \<Rightarrow> string \<Rightarrow> string" where
  "generateTaskHash sha256 taskText =
     (let normalizedTask = trim (toLowerCase taskText)
      in take 16 (sha256 normalizedTask))"

text \<open>
  \<open>generateCompletePlan\<close> up to the start of the background enhancement: the plan it
  returns and the enhancement state it registers.  \<open>apiKey\<close> is \<open>options.apiKey\<close>;
  \<open>now\<close> and \<open>started\<close> are the two readings of \<open>Date.now()\<close>.
\<close>

definition optionSet :: "string option \<Rightarrow> bool" where
  "optionSet apiKey = (case apiKey of Some k \<Rightarrow> k \<noteq> [] | None \<Rightarrow> False)"

definition initialEnhancementState ::
    "(string \<Rightarrow> string) \<Rightarrow> nat \<Rightarrow> nat \<Rightarrow> string \<Rightarrow> string option \<Rightarrow> PlanEnhancementState" where
  "initialEnhancementState sha256 now started taskText apiKey =
     (let basePlan = planTask now taskText;
          taskHash = generateTaskHash sha256 taskText;
          analysis = analyzeTask taskText;
          basePlan = (if optionSet apiKey then basePlan\<lparr>generationMethod := Hybrid\<rparr>
                      else basePlan)
      in \<lparr>taskHash = taskHash,
          basePlan = basePlan,
          state_analysis = analysis,
          enhancedPhases = (\<lambda>i. None),
          phaseStatuses = (\<lambda>i. None),
          progress = \<lparr>current = 0, total = length (phases basePlan)\<rparr>,
          isComplete = False,
          startTime = started\<rparr>)"

text \<open>\<open>for (let i = 0; i < n; i++) state.phaseStatuses[i] = s\<close>.\<close>

definition setAllStatuses :: "Status \<Rightarrow> PlanEnhancementState \<Rightarrow> PlanEnhancementState" where
  "setAllStatuses s state =
     fold (\<lambda>i st. st\<lparr>phaseStatuses := (phaseStatuses st)(i \<mapsto> s)\<rparr>)
          [0 ..< length (phases (basePlan state))] state"

text \<open>The conversion to the \<open>EnhancedPhase\<close> format, shared by both variants.\<close>

definition toEnhancedPhase :: "Phase \<Rightarrow> json \<Rightarrow> EnhancedPhase" where
  "toEnhancedPhase phase enhanced =
     \<lparr>enh_id = phase_id phase,
      enh_name = name phase,
      enh_description = getProp enhanced ''description'',
      enh_reasoning = getProp enhanced ''reasoning'',
      enh_files = getProp enhanced ''files'',
      enh_estimatedTime = estimatedTime phase\<rparr>"

subsection \<open>Batch variant\<close>

text \<open>
  \<open>service.enhanceAllPhases\<close> is not part of the sources at hand: its outcome is a
  parameter, either a thrown exception or the array it resolves with.
  \<open>batchResults[i]\<close> is \<open>undefined\<close> beyond the end of the array.
\<close>

datatype BatchOutcome = BatchThrows | BatchResults "json list"

definition arrayAt :: "json list \<Rightarrow> nat \<Rightarrow> json option" where
  "arrayAt xs i = (if i < length xs then Some (xs ! i) else None)"

text \<open>One iteration of the loop that processes the batch results.\<close>

definition processBatchResult ::
    "json list \<Rightarrow> nat \<Rightarrow> PlanEnhancementState \<Rightarrow> PlanEnhancementState" where
  "processBatchResult batchResults i state =
     (case arrayAt batchResults i of
        Some enhanced \<Rightarrow>
          if truthy (Some enhanced)
          then state\<lparr>enhancedPhases := (enhancedPhases state)
                         (i \<mapsto> EnhancedValue (toEnhancedPhase (phases (basePlan state) ! i) enhanced)),
                     phaseStatuses := (phaseStatuses state)(i \<mapsto> Enhanced)\<rparr>
          else state\<lparr>phaseStatuses := (phaseStatuses state)(i \<mapsto> EnhancementFailed)\<rparr>
      | None \<Rightarrow> state\<lparr>phaseStatuses := (phaseStatuses state)(i \<mapsto> EnhancementFailed)\<rparr>)"

definition setProgressCurrent :: "nat \<Rightarrow> PlanEnhancementState \<Rightarrow> PlanEnhancementState" where
  "setProgressCurrent n state = state\<lparr>progress := (progress state)\<lparr>current := n\<rparr>\<rparr>"

text \<open>
  \<open>enhancePlanAsync\<close> on the state found under the task hash: the state while the batch
  call is awaited, and the state when the function returns.
\<close>

definition batchAwaiting :: "PlanEnhancementState \<Rightarrow> PlanEnhancementState" where
  "batchAwaiting state = setAllStatuses Enhancing state"

definition enhancePlanAsync_batch :: "BatchOutcome \<Rightarrow> PlanEnhancementState \<Rightarrow> PlanEnhancementState" where
  "enhancePlanAsync_batch outcome state0 =
     (let n = length (phases (basePlan state0));
          state = batchAwaiting state0;
          state =
            (case outcome of
               BatchResults batchResults \<Rightarrow>
                 setProgressCurrent n (fold (processBatchResult batchResults) [0 ..< n] state)
             | BatchThrows \<Rightarrow>
                 setProgressCurrent n (setAllStatuses EnhancementFailed state));
          state = state\<lparr>isComplete := True\<rparr>;
          state = setProgressCurrent n state
      in state)"

text \<open>The states of one batch run that a status poll can see.\<close>

definition batchTrace :: "BatchOutcome \<Rightarrow> PlanEnhancementState \<Rightarrow> PlanEnhancementState list" where
  "batchTrace outcome state0 =
     [state0, batchAwaiting state0, enhancePlanAsync_batch outcome state0]"

subsection \<open>Sequential variant\<close>

text \<open>
  The outcome of \<open>service.enhancePhase\<close> for the phase at index \<open>i\<close> is
  \<open>results i\<close>.  The loop body marks the phase as enhancing and awaits the call; then it
  stores the enhanced phase, or the \<open>catch\<close> block marks the failure (a rejected call,
  or a \<open>TypeError\<close> on a \<open>null\<close> response).  A call that stays suspended ends the
  trace there.  Every index below the length holds a phase, so the branch for a missing
  phase is never taken.
\<close>

definition seqAwaiting :: "nat \<Rightarrow> PlanEnhancementState \<Rightarrow> PlanEnhancementState" where
  "seqAwaiting i state = state\<lparr>phaseStatuses := (phaseStatuses state)(i \<mapsto> Enhancing)\<rparr>"

definition seqSettle :: "nat \<Rightarrow> json Outcome \<Rightarrow> PlanEnhancementState \<Rightarrow> PlanEnhancementState" where
  "seqSettle i result state =
     (case result of
        Resolved enhanced \<Rightarrow>
          if enhanced = JNull
          then setProgressCurrent (i + 1)
                 (state\<lparr>phaseStatuses := (phaseStatuses state)(i \<mapsto> EnhancementFailed)\<rparr>)
          else setProgressCurrent (i + 1)
                 (state\<lparr>enhancedPhases := (enhancedPhases state)
                            (i \<mapsto> EnhancedValue (toEnhancedPhase (phases (basePlan state) ! i) enhanced)),
                        phaseStatuses := (phaseStatuses state)(i \<mapsto> Enhanced)\<rparr>)
      | _ \<Rightarrow> setProgressCurrent (i + 1)
               (state\<lparr>phaseStatuses := (phaseStatuses state)(i \<mapsto> EnhancementFailed)\<rparr>))"

text \<open>
  \<open>seqTrace results is state\<close>: the states a status poll can see while the loop runs
  over the indices \<open>is\<close>, ending with the state when the function returns.
\<close>

fun seqTrace :: "(nat \<Rightarrow> json Outcome) \<Rightarrow> nat list \<Rightarrow> PlanEnhancementState \<Rightarrow> PlanEnhancementState list" where
  "seqTrace results [] state =
     [setProgressCurrent (length (phases (basePlan state))) (state\<lparr>isComplete := True\<rparr>)]"
| "seqTrace results (i # rest) state =
     seqAwaiting i state #
       (if results i = AwaitingSlot then []
        else seqTrace results rest (seqSettle i (results i) (seqAwaiting i state)))"

definition sequentialTrace ::
    "(nat \<Rightarrow> json Outcome) \<Rightarrow> PlanEnhancementState \<Rightarrow> PlanEnhancementState list" where
  "sequentialTrace results state0 =
     state0 # seqTrace results [0 ..< length (phases (basePlan state0))] state0"

text \<open>
  The consistency of the two maps of a state: an entry exists in \<open>enhancedPhases\<close>
  exactly at the indices whose status is \<open>enhanced\<close>, and no entry is the
  \<open>'failed'\<close> marker.
\<close>

definition mapsConsistent :: "PlanEnhancementState \<Rightarrow> bool" where
  "mapsConsistent state =
     ((\<forall>i. enhancedPhases state i \<noteq> None \<longleftrightarrow> phaseStatuses state i = Some Enhanced)
      \<and> (\<forall>i. enhancedPhases state i \<noteq> Some FailedMarker))"

section \<open>Decision engine: scores, tie-break and confidence\<close>


























section \<open>Analyzer: evaluation rules for concrete inputs\<close>

lemma canonicalize_evals:
  "canonicalize (CHR ''a'') = CHR ''A''" "canonicalize (CHR ''b'') = CHR ''B''"
  "canonicalize (CHR ''c'') = CHR ''C''" "canonicalize (CHR ''d'') = CHR ''D''"
  "canonicalize (CHR ''e'') = CHR ''E''" "canonicalize (CHR ''f'') = CHR ''F''"
  "canonicalize (CHR ''g'') = CHR ''G''" "canonicalize (CHR ''h'') = CHR ''H''"
  "canonicalize (CHR ''i'') = CHR ''I''" "canonicalize (CHR ''j'') = CHR ''J''"
  "canonicalize (CHR ''k'') = CHR ''K''" "canonicalize (CHR ''l'') = CHR ''L''"
  "canonicalize (CHR ''m'') = CHR ''M''" "canonicalize (CHR ''n'') = CHR ''N''"
  "canonicalize (CHR ''o'') = CHR ''O''" "canonicalize (CHR ''p'') = CHR ''P''"
  "canonicalize (CHR ''q'') = CHR ''Q''" "canonicalize (CHR ''r'') = CHR ''R''"
  "canonicalize (CHR ''s'') = CHR ''S''" "canonicalize (CHR ''t'') = CHR ''T''"
  "canonicalize (CHR ''u'') = CHR ''U''" "canonicalize (CHR ''v'') = CHR ''V''"
  "canonicalize (CHR ''w'') = CHR ''W''" "canonicalize (CHR ''x'') = CHR ''X''"
  "canonicalize (CHR ''y'') = CHR ''Y''" "canonicalize (CHR ''z'') = CHR ''Z''"
  "canonicalize (CHR '' '') = CHR '' ''" "canonicalize (CHR ''-'') = CHR ''-''"
  "canonicalize (CHR ''0'') = CHR ''0''" "canonicalize (CHR ''1'') = CHR ''1''"
  "canonicalize (CHR ''2'') = CHR ''2''" "canonicalize (CHR ''3'') = CHR ''3''"
  "canonicalize (CHR ''4'') = CHR ''4''" "canonicalize (CHR ''5'') = CHR ''5''"
  "canonicalize (CHR ''6'') = CHR ''6''" "canonicalize (CHR ''7'') = CHR ''7''"
  "canonicalize (CHR ''8'') = CHR ''8''" "canonicalize (CHR ''9'') = CHR ''9''"
  by (simp_all add: canonicalize_def char_of_eq_iff)

lemma isWordChar_evals:
  "isWordChar (CHR ''a'') = True" "isWordChar (CHR ''b'') = True"
  "isWordChar (CHR ''c'') = True" "isWordChar (CHR ''d'') = True"
  "isWordChar (CHR ''e'') = True" "isWordChar (CHR ''f'') = True"
  "isWordChar (CHR ''g'') = True" "isWordChar (CHR ''h'') = True"
  "isWordChar (CHR ''i'') = True" "isWordChar (CHR ''j'') = True"
  "isWordChar (CHR ''k'') = True" "isWordChar (CHR ''l'') = True"
  "isWordChar (CHR ''m'') = True" "isWordChar (CHR ''n'') = True"
  "isWordChar (CHR ''o'') = True" "isWordChar (CHR ''p'') = True"
  "isWordChar (CHR ''q'') = True" "isWordChar (CHR ''r'') = True"
  "isWordChar (CHR ''s'') = True" "isWordChar (CHR ''t'') = True"
  "isWordChar (CHR ''u'') = True" "isWordChar (CHR ''v'') = True"
  "isWordChar (CHR ''w'') = True" "isWordChar (CHR ''x'') = True"
  "isWordChar (CHR ''y'') = True" "isWordChar (CHR ''z'') = True"
  "isWordChar (CHR '' '') = False" "isWordChar (CHR ''-'') = False"
  "isWordChar (CHR ''0'') = True" "isWordChar (CHR ''1'') = True"
  "isWordChar (CHR ''2'') = True" "isWordChar (CHR ''3'') = True"
  "isWordChar (CHR ''4'') = True" "isWordChar (CHR ''5'') = True"
  "isWordChar (CHR ''6'') = True" "isWordChar (CHR ''7'') = True"
  "isWordChar (CHR ''8'') = True" "isWordChar (CHR ''9'') = True"
  by (simp_all add: isWordChar_def)

lemmas regex_evals =
  regexWordTest_def wordBoundary_def isWordAt_def headOpt_def canonicalize_evals isWordChar_evals

lemmas detectFeatures_evals =
  detectFeatures_def PATTERNS_features_def featureStep_def featureKeywordHit_def regex_evals

section \<open>Analyzer: the api project type and the api feature tag\<close>

lemma detectProjectType_Api:
  assumes "detectProjectType s = Api"
  shows "restApiPhrase s \<or> str_includes s ''rest'' \<or> str_includes s ''endpoint''
         \<or> str_includes s ''service'' \<or> str_includes s ''backend'' \<or> str_includes s ''server''"
  using assms
  by (simp add: detectProjectType_def PATTERNS_projectType_def projectKeywordHit_def split: if_splits)

lemma detectProjectType_context_api:
  "str_includes s ''context api'' \<Longrightarrow> detectProjectType s \<noteq> Api"
  by (simp add: detectProjectType_def)

lemma featureStep_mem:
  "x \<in> set (featureStep input d (f, kws)) \<longleftrightarrow>
     x \<in> set d \<or> (x = f \<and> list_ex (featureKeywordHit input) kws
                  \<and> \<not> (f = ''api'' \<and> ''frontend'' \<in> set d \<and> str_includes input ''context api''))"
  by (auto simp: featureStep_def)

lemma foldl_featureStep_mem:
  "x \<in> set (foldl (featureStep input) d tbl) \<Longrightarrow>
     x \<in> set d \<or> (\<exists>(f, kws) \<in> set tbl. f = x \<and> list_ex (featureKeywordHit input) kws)"
proof (induction tbl arbitrary: d)
  case Nil then show ?case by simp
next
  case (Cons e tbl)
  obtain f kws where e: "e = (f, kws)" by (cases e)
  from Cons.prems have "x \<in> set (foldl (featureStep input) (featureStep input d (f, kws)) tbl)"
    by (simp add: e)
  from Cons.IH[OF this] show ?case
    by (auto simp: featureStep_mem e)
qed

lemma foldl_featureStep_api_skipped:
  assumes "str_includes input ''context api''" and "''frontend'' \<in> set d"
    and "''api'' \<in> set (foldl (featureStep input) d tbl)"
  shows "''api'' \<in> set d"
  using assms(2,3)
proof (induction tbl arbitrary: d)
  case Nil then show ?case by simp
next
  case (Cons e tbl)
  obtain f kws where e: "e = (f, kws)" by (cases e)
  have fr: "''frontend'' \<in> set (featureStep input d (f, kws))"
    using Cons.prems(1) by (simp add: featureStep_mem)
  from Cons.prems(2) have "''api'' \<in> set (foldl (featureStep input) (featureStep input d (f, kws)) tbl)"
    by (simp add: e)
  from Cons.IH[OF fr this] show ?case
    using assms(1) Cons.prems(1) by (auto simp: featureStep_mem)
qed

lemma restApiPhrase_order:
  "(str_includes s ''rest api'' \<or> str_includes s ''rest endpoint''
      \<or> str_includes s ''backend api'' \<or> str_includes s ''server api'') = restApiPhrase s"
  by (auto simp: restApiPhrase_def)

lemma detectFeatures_api:
  assumes "''api'' \<in> set (detectFeatures s)"
  shows "restApiPhrase s
         \<or> (\<not> str_includes s ''context api''
            \<and> list_ex (featureKeywordHit s)
                  [''api endpoint'', ''graphql'', ''routes'', ''express'', ''fastify'', ''backend'',
                   ''node'', ''nodejs'', ''server''])"
proof (cases "restApiPhrase s")
  case True then show ?thesis by simp
next
  case False
  define d0 where "d0 = (if str_includes s ''context api'' \<or> str_includes s ''state management''
                   then [''frontend''] else [])"
  from assms False have m: "''api'' \<in> set (foldl (featureStep s) d0 PATTERNS_features)"
    by (simp add: detectFeatures_def Let_def restApiPhrase_order d0_def split: if_splits)
  have nd: "''api'' \<notin> set d0" by (simp add: d0_def)
  have "\<not> str_includes s ''context api''"
  proof
    assume c: "str_includes s ''context api''"
    then have "''frontend'' \<in> set d0" by (simp add: d0_def)
    from foldl_featureStep_api_skipped[OF c this m] nd show False by simp
  qed
  moreover from foldl_featureStep_mem[OF m] nd 
  have "\<exists>(f, kws) \<in> set PATTERNS_features. f = ''api'' \<and> list_ex (featureKeywordHit s) kws" by simp
  then have "list_ex (featureKeywordHit s)
               [''api endpoint'', ''graphql'', ''routes'', ''express'', ''fastify'', ''backend'',
                ''node'', ''nodejs'', ''server'']"
    using False by (auto simp: PATTERNS_features_def featureKeywordHit_def restApiPhrase_def)
  ultimately show ?thesis by simp
qed

lemma detectFeatures_context_api:
  assumes "str_includes s ''context api''"
  shows "''api'' \<in> set (detectFeatures s) \<longleftrightarrow> restApiPhrase s"
proof
  assume "''api'' \<in> set (detectFeatures s)"
  from detectFeatures_api[OF this] assms show "restApiPhrase s" by simp
next
  assume "restApiPhrase s"
  then show "''api'' \<in> set (detectFeatures s)"
    by (simp add: detectFeatures_def Let_def restApiPhrase_order)
qed

lemma analyzeTask_features: "features (analyzeTask input) = detectFeatures (toLowerCase input)"
  by (simp add: analyzeTask_def baseAnalysis_def Let_def)

lemma analyzeTask_projectType: "projectType (analyzeTask input) = detectProjectType (toLowerCase input)"
  by (simp add: analyzeTask_def baseAnalysis_def Let_def)


lemma analyzeTask_hasBackend: "hasBackend (analyzeTask input) = hasBackend (baseAnalysis input)"
  by (simp add: analyzeTask_def Let_def)

lemmas toLowerCase_evals = toLowerCase_def toLowerChar_def char_of_eq_iff

lemmas detectProjectType_evals =
  detectProjectType_def PATTERNS_projectType_def projectKeywordHit_def restApiPhrase_def

lemma server_lower: "toLowerCase ''server'' = ''server''"
  by (simp add: toLowerCase_evals)

lemma server_projectType: "detectProjectType ''server'' = Api"
  by (simp add: detectProjectType_evals)

lemma server_features: "detectFeatures ''server'' = [''api'']"
  by (simp add: detectFeatures_evals)

lemma context_api_lower: "toLowerCase ''context api'' = ''context api''"
  by (simp add: toLowerCase_evals)

text \<open>
  C4, as stated, fails: the input \<open>server\<close> holds none of the four phrases, yet it gets
  the api project type (keyword \<open>server\<close> of the project-type table) and the api
  feature tag (keyword \<open>server\<close> of the feature table).
\<close>

theorem api_phrase_required_counterexample:
  "\<not> restApiPhrase (toLowerCase ''server'')
   \<and> projectType (analyzeTask ''server'') = Api
   \<and> ''api'' \<in> set (features (analyzeTask ''server''))"
  by (simp add: analyzeTask_features analyzeTask_projectType server_lower server_projectType
        server_features restApiPhrase_def)

text \<open>
  C4 (amended): with \<open>l\<close> the lower-cased input, the api project type is assigned only
  when \<open>l\<close> contains one of the four phrases or one of the project-type keywords
  rest, endpoint, service, backend, server; the api feature tag is assigned only when
  \<open>l\<close> contains one of the four phrases, or does not contain "context api" and matches
  another keyword of the api feature; and when \<open>l\<close> contains "context api" the project
  type is never api and the api tag is assigned exactly when one of the four phrases occurs.
\<close>

theorem api_classification:
  assumes "l = toLowerCase input"
  shows "(projectType (analyzeTask input) = Api \<longrightarrow>
            restApiPhrase l \<or> str_includes l ''rest'' \<or> str_includes l ''endpoint''
            \<or> str_includes l ''service'' \<or> str_includes l ''backend''
            \<or> str_includes l ''server'')
         \<and> (''api'' \<in> set (features (analyzeTask input)) \<longrightarrow>
              restApiPhrase l
              \<or> (\<not> str_includes l ''context api''
                 \<and> list_ex (featureKeywordHit l)
                       [''api endpoint'', ''graphql'', ''routes'', ''express'', ''fastify'',
                        ''backend'', ''node'', ''nodejs'', ''server'']))
         \<and> (str_includes l ''context api'' \<longrightarrow>
              projectType (analyzeTask input) \<noteq> Api
              \<and> (''api'' \<in> set (features (analyzeTask input)) \<longleftrightarrow> restApiPhrase l))"
  using detectProjectType_Api[of l] detectFeatures_api[of l] detectProjectType_context_api[of l]
        detectFeatures_context_api[of l]
  by (simp only: assms analyzeTask_features analyzeTask_projectType) blast

theorem api_classification_witness:
  "(projectType (analyzeTask ''server'') = Api \<and> str_includes (toLowerCase ''server'') ''server''
    \<and> ''api'' \<in> set (features (analyzeTask ''server''))
    \<and> list_ex (featureKeywordHit (toLowerCase ''server''))
          [''api endpoint'', ''graphql'', ''routes'', ''express'', ''fastify'', ''backend'',
           ''node'', ''nodejs'', ''server''])
   \<and> (str_includes (toLowerCase ''context api'') ''context api''
      \<and> projectType (analyzeTask ''context api'') \<noteq> Api
      \<and> ''api'' \<notin> set (features (analyzeTask ''context api'')))"
proof -
  have s: "projectType (analyzeTask ''server'') = Api"
    by (simp add: analyzeTask_projectType server_lower server_projectType)
  have f: "''api'' \<in> set (features (analyzeTask ''server''))"
    by (simp add: analyzeTask_features server_lower server_features)
  have n: "\<not> restApiPhrase (toLowerCase ''server'')"
    by (simp add: server_lower restApiPhrase_def)
  have c: "str_includes (toLowerCase ''context api'') ''context api''"
    by (simp add: context_api_lower)
  have r: "\<not> restApiPhrase (toLowerCase ''context api'')"
    by (simp add: context_api_lower restApiPhrase_def)
  show ?thesis
    using s f n c r api_classification[of "toLowerCase ''server''" "''server''"]
          api_classification[of "toLowerCase ''context api''" "''context api''"]
    by (simp add: server_lower)
qed

section \<open>Analyzer: case of the raw input\<close>

lemma blog_lower: "toLowerCase ''BLOG'' = ''blog''"
  by (simp add: toLowerCase_evals)

lemma blog_lower_idem: "toLowerCase ''blog'' = ''blog''"
  by (simp add: toLowerCase_evals)

lemma blog_projectType: "detectProjectType ''blog'' = WebApp"
  by (simp add: detectProjectType_evals)

lemma blog_features: "detectFeatures ''blog'' = []"
  by (simp add: detectFeatures_evals)

text \<open>
  C9: the claim is right about the intent (the input is lower-cased, and the test suite
  asks for case-insensitive handling), but \<open>hasBackend\<close> searches the raw input:
  \<open>BLOG\<close> and its lower-case form get different \<open>hasBackend\<close> flags.
\<close>

theorem analyzeTask_not_case_insensitive:
  "\<not> hasBackend (analyzeTask ''BLOG'')
   \<and> hasBackend (analyzeTask (toLowerCase ''BLOG''))
   \<and> analyzeTask ''BLOG'' \<noteq> analyzeTask (toLowerCase ''BLOG'')"
proof -
  have a: "\<not> hasBackend (analyzeTask ''BLOG'')"
    by (simp add: analyzeTask_hasBackend baseAnalysis_def Let_def blog_lower blog_projectType
          blog_features)
  have b: "hasBackend (analyzeTask (toLowerCase ''BLOG''))"
    by (simp add: analyzeTask_hasBackend baseAnalysis_def Let_def blog_lower blog_lower_idem
          blog_projectType blog_features)
  from a b have "analyzeTask ''BLOG'' \<noteq> analyzeTask (toLowerCase ''BLOG'')"
    by metis
  with a b show ?thesis by simp
qed

section \<open>The sample analyses are analyzer outputs\<close>

lemma tieAnalysis_reachable: "baseAnalysis ''server database test'' = tieAnalysis"
proof -
  have l: "toLowerCase ''server database test'' = ''server database test''"
    by (simp add: toLowerCase_evals)
  have p: "detectProjectType ''server database test'' = Api"
    by (simp add: detectProjectType_evals)
  have f: "detectFeatures ''server database test'' = [''database'', ''api'', ''testing'']"
    by (simp add: detectFeatures_evals)
  show ?thesis
    by (simp add: baseAnalysis_def Let_def l p f tieAnalysis_def determineComplexity_def)
qed

lemma cappedAnalysis_reachable: "baseAnalysis ''login fintech hospital shopping'' = cappedAnalysis"
proof -
  have l: "toLowerCase ''login fintech hospital shopping'' = ''login fintech hospital shopping''"
    by (simp add: toLowerCase_evals)
  have p: "detectProjectType ''login fintech hospital shopping'' = WebApp"
    by (simp add: detectProjectType_evals)
  have f: "detectFeatures ''login fintech hospital shopping''
             = [''auth'', ''fintech'', ''healthcare'', ''ecommerce'']"
    by (simp add: detectFeatures_evals)
  show ?thesis
    by (simp add: baseAnalysis_def Let_def l p f cappedAnalysis_def determineComplexity_def)
qed

lemma fintechAnalysis_reachable: "baseAnalysis ''fintech'' = fintechAnalysis"
proof -
  have l: "toLowerCase ''fintech'' = ''fintech''"
    by (simp add: toLowerCase_evals)
  have p: "detectProjectType ''fintech'' = WebApp"
    by (simp add: detectProjectType_evals)
  have f: "detectFeatures ''fintech'' = [''fintech'']"
    by (simp add: detectFeatures_evals)
  show ?thesis
    by (simp add: baseAnalysis_def Let_def l p f fintechAnalysis_def determineComplexity_def)
qed

section \<open>Planner: phase order and dependencies\<close>

lemmas phase_defs = generateSetupPhase_def generateDatabasePhase_def generateAuthPhase_def
  generateBackendPhase_def generateFrontendPhase_def generateTestingPhase_def

lemma generatePhases_ids:
  "map phase_id (generatePhases a) =
     [''phase-setup''] @ (if hasDatabase a then [''phase-database''] else [])
     @ (if hasAuth a then [''phase-auth''] else [])
     @ (if hasBackend a then [''phase-backend''] else [])
     @ (if hasFrontend a then [''phase-frontend''] else [])
     @ [''phase-testing'']"
  by (simp add: generatePhases_def Let_def phase_defs)

lemma filter_by_id:
  "length (filter (\<lambda>p. phase_id p = x) ps) = length (filter (\<lambda>i. i = x) (map phase_id ps))"
  by (induction ps) auto

lemma generatePhases_shape:
  "generatePhases a \<noteq> []"
  "phase_id (hd (generatePhases a)) = ''phase-setup''"
  "phase_id (last (generatePhases a)) = ''phase-testing''"
  by (simp_all add: generatePhases_def Let_def phase_defs)

lemma generatePhases_counts:
  "length (filter (\<lambda>p. phase_id p = ''phase-setup'') (generatePhases a)) = 1"
  "length (filter (\<lambda>p. phase_id p = ''phase-testing'') (generatePhases a)) = 1"
  by (simp_all add: filter_by_id generatePhases_ids)

lemma planTask_phases: "phases (planTask now t) = generatePhases (analyzeTask t)"
  by (simp add: planTask_def Let_def)

lemma analyzeTask_flags:
  "hasAuth (analyzeTask t) = hasAuth (baseAnalysis t)"
  "hasDatabase (analyzeTask t) = hasDatabase (baseAnalysis t)"
  "hasFrontend (analyzeTask t) = hasFrontend (baseAnalysis t)"
  by (simp_all add: analyzeTask_def Let_def)

lemma analyzeTask_auth_database: "hasAuth (analyzeTask t) \<Longrightarrow> hasDatabase (analyzeTask t)"
  by (simp add: analyzeTask_flags baseAnalysis_def Let_def)

lemma generatePhases_deps:
  assumes "hasAuth a \<longrightarrow> hasDatabase a"
  shows "dependenciesPlacedEarlier [] (generatePhases a)"
  using assms by (simp add: generatePhases_def Let_def phase_defs)

lemma dependenciesPlacedEarlier_nth:
  assumes "dependenciesPlacedEarlier seen ps" and "i < length ps" and "d \<in> set (dependencies (ps ! i))"
  shows "d \<in> set seen \<or> (\<exists>j<i. phase_id (ps ! j) = d)"
  using assms
proof (induction ps arbitrary: seen i)
  case Nil then show ?case by simp
next
  case (Cons p ps)
  show ?case
  proof (cases i)
    case 0
    with Cons.prems show ?thesis by auto
  next
    case (Suc k)
    from Cons.prems Suc have "d \<in> set (seen @ [phase_id p]) \<or> (\<exists>j<k. phase_id (ps ! j) = d)"
      by (intro Cons.IH) auto
    then show ?thesis
    proof
      assume "d \<in> set (seen @ [phase_id p])"
      then show ?thesis using Suc by auto
    next
      assume "\<exists>j<k. phase_id (ps ! j) = d"
      then obtain j where "j < k" "phase_id (ps ! j) = d" by blast
      then have "Suc j < i" "phase_id ((p # ps) ! Suc j) = d" using Suc by auto
      then show ?thesis by blast
    qed
  qed
qed

lemma generatePhases_auth_dependency:
  assumes "p \<in> set (generatePhases a)" and "phase_id p = ''phase-auth''"
  shows "''phase-database'' \<in> set (dependencies p)"
  using assms by (auto simp: generatePhases_def Let_def phase_defs split: if_splits)

text \<open>
  C1: for every task string (and every clock reading), the phases of the plan returned by
  \<open>planTask\<close> are non-empty, hold exactly one phase with id \<open>phase-setup\<close> and exactly
  one with id \<open>phase-testing\<close>, the setup phase is the first element and the testing
  phase is the last.
\<close>

theorem planTask_setup_first_testing_last:
  "phases (planTask now t) \<noteq> []
   \<and> length (filter (\<lambda>p. phase_id p = ''phase-setup'') (phases (planTask now t))) = 1
   \<and> length (filter (\<lambda>p. phase_id p = ''phase-testing'') (phases (planTask now t))) = 1
   \<and> phase_id (hd (phases (planTask now t))) = ''phase-setup''
   \<and> phase_id (last (phases (planTask now t))) = ''phase-testing''"
  by (simp only: planTask_phases generatePhases_shape generatePhases_counts simp_thms)

lemma login_analysis:
  "hasAuth (analyzeTask ''login'')" "hasDatabase (analyzeTask ''login'')"
  "hasFrontend (analyzeTask ''login'')" "hasBackend (analyzeTask ''login'')"
proof -
  have l: "toLowerCase ''login'' = ''login''"
    by (simp add: toLowerCase_evals)
  have p: "detectProjectType ''login'' = WebApp"
    by (simp add: detectProjectType_evals)
  have f: "detectFeatures ''login'' = [''auth'']"
    by (simp add: detectFeatures_evals)
  show "hasAuth (analyzeTask ''login'')" "hasDatabase (analyzeTask ''login'')"
    "hasFrontend (analyzeTask ''login'')" "hasBackend (analyzeTask ''login'')"
    by (simp_all add: analyzeTask_flags analyzeTask_hasBackend baseAnalysis_def Let_def l p f)
qed

lemma login_phases:
  "generatePhases (analyzeTask ''login'') =
     [generateSetupPhase (analyzeTask ''login''), generateDatabasePhase (analyzeTask ''login''),
      generateAuthPhase (analyzeTask ''login''), generateBackendPhase (analyzeTask ''login''),
      generateFrontendPhase (analyzeTask ''login''), generateTestingPhase (analyzeTask ''login'')]"
  by (simp add: generatePhases_def Let_def login_analysis)

theorem planTask_setup_first_testing_last_witness:
  "length (phases (planTask 0 ''login'')) = 6
   \<and> phase_id (hd (phases (planTask 0 ''login''))) = ''phase-setup''
   \<and> phase_id (last (phases (planTask 0 ''login''))) = ''phase-testing''"
  using planTask_setup_first_testing_last[of 0 "''login''"]
  by (simp add: planTask_phases login_phases)

text \<open>
  C2: for every task string, every dependency of every phase of \<open>planTask(task).phases\<close>
  is the id of a phase that occurs strictly earlier in the array; in particular a phase
  with id \<open>phase-auth\<close> is preceded by a phase with id \<open>phase-database\<close>.
\<close>

theorem planTask_dependencies_earlier:
  "(\<forall>i < length (phases (planTask now t)).
      \<forall>d \<in> set (dependencies (phases (planTask now t) ! i)).
        \<exists>j < i. phase_id (phases (planTask now t) ! j) = d)
   \<and> (\<forall>i < length (phases (planTask now t)).
        phase_id (phases (planTask now t) ! i) = ''phase-auth''
        \<longrightarrow> (\<exists>j < i. phase_id (phases (planTask now t) ! j) = ''phase-database''))"
proof -
  let ?ps = "generatePhases (analyzeTask t)"
  have ok: "dependenciesPlacedEarlier [] ?ps"
    by (rule generatePhases_deps) (simp add: analyzeTask_auth_database)
  have main: "\<exists>j < i. phase_id (?ps ! j) = d"
    if "i < length ?ps" and "d \<in> set (dependencies (?ps ! i))" for i d
    using dependenciesPlacedEarlier_nth[OF ok that] by simp
  have auth: "\<exists>j < i. phase_id (?ps ! j) = ''phase-database''"
    if "i < length ?ps" and "phase_id (?ps ! i) = ''phase-auth''" for i
  proof -
    from that(1) have "?ps ! i \<in> set ?ps" by simp
    from generatePhases_auth_dependency[OF this that(2)] main[OF that(1)]
    show ?thesis by blast
  qed
  from main auth show ?thesis
    by (simp only: planTask_phases) blast
qed

theorem planTask_dependencies_earlier_witness:
  "2 < length (phases (planTask 0 ''login''))
   \<and> phase_id (phases (planTask 0 ''login'') ! 2) = ''phase-auth''
   \<and> ''phase-database'' \<in> set (dependencies (phases (planTask 0 ''login'') ! 2))
   \<and> phase_id (phases (planTask 0 ''login'') ! 1) = ''phase-database''"
  using planTask_dependencies_earlier[of 0 "''login''"]
  by (simp add: planTask_phases login_phases phase_defs)

section \<open>Enhancement service: it always resolves, and falls back on unusable replies\<close>

lemma enhanceUncached_resolves:
  assumes "activeRequests service < MAX_CONCURRENCY"
  shows "\<exists>r service' calls'. enhanceUncached JSON_parse model service calls storedAt phase key = (Resolved r, service', calls')"
  using assms by (simp add: enhanceUncached_def Let_def split: prod.splits)

lemma enhancePhase_resolves:
  assumes "client service" "activeRequests service < MAX_CONCURRENCY"
  shows "\<exists>r service' calls'. enhancePhase JSON_parse sha256 model service calls now storedAt phase taskText = (Resolved r, service', calls')"
  using assms enhanceUncached_resolves[OF assms(2)]
  by (simp add: enhancePhase_def Let_def split: option.splits)

lemma typeof_evals: "typeofString (Some (JStr s))" "isArray (Some (JArr xs))" "truthy (Some (JObj m))" "typeofObject (Some (JObj m))"
  "isStringArray (Some (strings ys))" "isArray (Some (strings ys))"
  by (simp_all add: typeofString_def isArray_def truthy_def typeofObject_def isStringArray_def strings_def list_all_iff)

lemma strings_details:
  "strings xs = JArr (map JStr xs)"
  "\<not> list_ex (\<lambda>detail. \<not> typeofString (Some detail)) (map JStr xs)"
  by (simp_all add: strings_def list_ex_iff typeofString_def)

lemma validateFiles_fallback:
  "validateFiles (map (\<lambda>file. JObj
                [(''path'', JStr (path file)),
                 (''details'', strings (details file @ extra)),
                 (''architecture_notes'', JStr a),
                 (''implementation_guidance'', JStr b),
                 (''security_considerations'', JStr c),
                 (''performance_tips'', JStr d)]) fs) = Inr True"
  by (induction fs) (simp_all add: getProp_def typeof_evals strings_details)

lemma fallback_validates: "validateResponse (createFallbackResponse phase) = Inr True"
  by (simp add: validateResponse_def createFallbackResponse_def getProp_def typeof_evals validateFiles_fallback)

lemma fallback_schema: "structuralSchema (createFallbackResponse phase)"
  by (simp add: structuralSchema_def createFallbackResponse_def getProp_def typeof_evals schemaFile_def list_all_iff)

lemma loop_calls_mono:
  "calls \<le> snd (performEnhancementLoop JSON_parse model phase attempts calls)"
proof (induction JSON_parse model phase attempts calls rule: performEnhancementLoop.induct)
  case (1 JSON_parse model phase attempts calls)
  show ?case
    apply (subst performEnhancementLoop.simps)
    using 1
    apply (auto split: sum.splits option.splits simp: maxAttempts_def)
    done
qed

lemma performEnhancement_calls:
  "calls < snd (performEnhancement JSON_parse model phase calls)"
proof -
  have "calls + 1 \<le> snd (performEnhancementLoop JSON_parse model phase 0 calls)"
    using loop_calls_mono[of "calls + 1" JSON_parse model phase 1]
    by (subst performEnhancementLoop.simps)
       (auto split: sum.splits simp: maxAttempts_def)
  then show ?thesis by (simp add: performEnhancement_def)
qed

lemma case_sum_isl: "isl x \<Longrightarrow> (case x of Inl e \<Rightarrow> a | Inr p \<Rightarrow> b p) = a"
  by (cases x) simp_all

lemma performEnhancement_all_fail:
  assumes "\<forall>n. replyUnusable JSON_parse phase (model n)"
  shows "performEnhancement JSON_parse model phase calls = (createFallbackResponse phase, calls + 5)"
proof -
  have m: "\<And>n. isl (mainAttempt JSON_parse (model n))"
    and r: "\<And>n. repairAttempt JSON_parse (model n) = None"
    and s: "\<And>n. simpleAttempt JSON_parse (model n) phase = None"
    using assms by (auto simp: replyUnusable_def)
  have l2: "performEnhancementLoop JSON_parse model phase (Suc (Suc 0)) c = (createFallbackResponse phase, c + 2)"
    for c
    by (subst performEnhancementLoop.simps) (simp add: maxAttempts_def case_sum_isl[OF m] s)
  have l1: "performEnhancementLoop JSON_parse model phase (Suc 0) c = (createFallbackResponse phase, c + 4)"
    for c
    by (subst performEnhancementLoop.simps) (simp add: maxAttempts_def case_sum_isl[OF m] r l2)
  have l0: "performEnhancementLoop JSON_parse model phase 0 c = (createFallbackResponse phase, c + 5)"
    for c
    by (subst performEnhancementLoop.simps) (simp add: maxAttempts_def case_sum_isl[OF m] l1)
  then show ?thesis by (simp add: performEnhancement_def)
qed

lemma unusable_Throws: "replyUnusable JSON_parse phase Throws"
  by (simp add: replyUnusable_def mainAttempt_def repairAttempt_def simpleAttempt_def)

lemma unusable_empty: "replyUnusable JSON_parse phase (Content None)"
  by (simp add: replyUnusable_def mainAttempt_def repairAttempt_def simpleAttempt_def)

lemma unusable_unparseable:
  assumes "\<forall>s. JSON_parse s = None"
  shows "replyUnusable JSON_parse phase (Content (Some text))"
  using assms
  by (simp add: replyUnusable_def mainAttempt_def repairAttempt_def simpleAttempt_def Let_def)

lemma enhancePhase_fallback:
  assumes "client service" and "activeRequests service < MAX_CONCURRENCY"
    and "cache service (generateCacheKey sha256 taskText (name phase) (files phase)) = None"
    and "\<forall>n. replyUnusable JSON_parse phase (model n)"
  shows "fst (enhancePhase JSON_parse sha256 model service calls now storedAt phase taskText)
           = Resolved (createFallbackResponse phase)"
    and "validateResponse (createFallbackResponse phase) = Inr True"
    and "structuralSchema (createFallbackResponse phase)"
  using assms(1-3)
  by (simp_all add: enhancePhase_def enhanceUncached_def Let_def
        performEnhancement_all_fail[OF assms(4)] fallback_validates fallback_schema)

section \<open>Enhancement service: the simple-schema path returns without validation\<close>

lemmas text_evals = trim_def isSpace_def isLineTerminator_def matchFence_def fromFirstBrace_def
  endsWith_def matchBraces_def cleanJsonString_def matchTrailingComma_def matchSingleQuoted_def
  matchLineComment_def matchBlockComment_def matchEmptyArray_def

lemma trailing_comma_main:
  assumes \<open>JSON_parse ''{"description": 5,}'' = None\<close>
  shows \<open>mainAttempt JSON_parse (Content (Some ''{"description": 5,}'')) = Inl JsonSyntaxError\<close>
  using assms by (simp add: mainAttempt_def Let_def text_evals)

lemma trailing_comma_repair:
  assumes \<open>JSON_parse ''{"description": 5,}'' = None\<close>
  shows \<open>repairAttempt JSON_parse (Content (Some ''{"description": 5,}'')) = None\<close>
  using assms by (simp add: repairAttempt_def Let_def text_evals)

lemma convert_description_number:
  "convertSimpleToFullResponse (JObj [(''description'', JNum 5)]) phase =
     Inr (JObj
              [(''description'', JNum 5),
               (''reasoning'', JStr ''AI-enhanced implementation with best practices''),
               (''architecture'',
                JObj
                 [(''patterns'', strings [''MVC Pattern'', ''Repository Pattern'']),
                  (''design_decisions'', strings [''Modular architecture'', ''Separation of concerns'']),
                  (''scalability_approach'', JStr ''Horizontal scaling with load balancing''),
                  (''security_measures'', strings [''Input validation'', ''Authentication'']),
                  (''performance_optimizations'', strings [''Caching'', ''Database indexing''])]),
               (''implementation'',
                JObj
                 [(''best_practices'', strings [''Follow SOLID principles'', ''Use TypeScript'']),
                  (''code_structure'', JStr ''Organize code into modules''),
                  (''error_handling'', JStr ''Comprehensive error handling with logging''),
                  (''testing_strategy'', JStr ''Unit and integration testing''),
                  (''deployment_considerations'', JStr ''Containerization with Docker'')]),
               (''files'', JArr [])])"
  by (simp add: convertSimpleToFullResponse_def orElse_def getProp_def truthy_def)

lemma trailing_comma_simple:
  assumes \<open>JSON_parse ''{"description": 5}'' = Some (JObj [(''description'', JNum 5)])\<close>
  shows \<open>simpleAttempt JSON_parse (Content (Some ''{"description": 5,}'')) phase
           = Some numberDescriptionResponse\<close>
  using assms
  by (simp add: simpleAttempt_def Let_def text_evals convert_description_number numberDescriptionResponse_def)

lemma numberDescription_invalid:
  "validateResponse numberDescriptionResponse = Inr False"
  "\<not> structuralSchema numberDescriptionResponse"
  "getProp numberDescriptionResponse ''description'' = Some (JNum 5)"
  by (simp_all add: numberDescriptionResponse_def validateResponse_def structuralSchema_def getProp_def
        truthy_def typeofObject_def typeofString_def)

lemma performEnhancement_trailing_comma:
  assumes \<open>JSON_parse ''{"description": 5,}'' = None\<close>
    and \<open>JSON_parse ''{"description": 5}'' = Some (JObj [(''description'', JNum 5)])\<close>
    and \<open>\<forall>n. model n = Content (Some ''{"description": 5,}'')\<close>
  shows "performEnhancement JSON_parse model phase calls = (numberDescriptionResponse, calls + 5)"
proof -
  note m = trailing_comma_main[of JSON_parse, OF assms(1)]
  note r = trailing_comma_repair[of JSON_parse, OF assms(1)]
  note s = trailing_comma_simple[of JSON_parse, OF assms(2)]
  have l2: "performEnhancementLoop JSON_parse model phase (Suc (Suc 0)) c = (numberDescriptionResponse, c + 2)"
    for c
    by (subst performEnhancementLoop.simps) (simp add: maxAttempts_def assms(3) m s)
  have l1: "performEnhancementLoop JSON_parse model phase (Suc 0) c = (numberDescriptionResponse, c + 4)"
    for c
    by (subst performEnhancementLoop.simps) (simp add: maxAttempts_def assms(3) m r l2)
  have l0: "performEnhancementLoop JSON_parse model phase 0 c = (numberDescriptionResponse, c + 5)"
    for c
    by (subst performEnhancementLoop.simps) (simp add: maxAttempts_def assms(3) m l1)
  then show ?thesis by (simp add: performEnhancement_def)
qed

text \<open>
  C3: the claim promises a response of the full structural schema whatever the model does.
  When every reply is the text \<open>{"description": 5,}\<close> (not valid JSON: a trailing
  comma), the three schema-validated attempts and the repair call fail, the simple-schema
  call cleans the text, parses it and returns \<open>convertSimpleToFullResponse\<close> without
  validating it: \<open>enhancePhase\<close> resolves, after five model calls, with a response whose
  description is the number 5, which \<open>validateResponse\<close> itself rejects.
\<close>

theorem enhancePhase_unvalidated_simple_response:
  assumes \<open>JSON_parse ''{"description": 5,}'' = None\<close>
    and \<open>JSON_parse ''{"description": 5}'' = Some (JObj [(''description'', JNum 5)])\<close>
    and \<open>\<forall>n. model n = Content (Some ''{"description": 5,}'')\<close>
    and "client service" and "activeRequests service < MAX_CONCURRENCY"
    and "cache service (generateCacheKey sha256 taskText (name phase) (files phase)) = None"
  shows "\<exists>r service'.
           enhancePhase JSON_parse sha256 model service calls now storedAt phase taskText
             = (Resolved r, service', calls + 5)
           \<and> getProp r ''description'' = Some (JNum 5)
           \<and> validateResponse r = Inr False
           \<and> \<not> structuralSchema r"
  using assms(4-6) numberDescription_invalid
  by (simp add: enhancePhase_def enhanceUncached_def Let_def
        performEnhancement_trailing_comma[of JSON_parse model, OF assms(1-3)])

lemma sampleParse_values:
  \<open>sampleParse ''{"description": 5,}'' = None\<close>
  \<open>sampleParse ''{"description": 5}'' = Some (JObj [(''description'', JNum 5)])\<close>
  by (simp_all add: sampleParse_def)

theorem enhancePhase_unvalidated_simple_response_witness:
  \<open>\<exists>r. fst (enhancePhase sampleParse id (constantModel ''{"description": 5,}'') freshService 0 0 0
             (generateAuthPhase tieAnalysis) ''add login'') = Resolved r
        \<and> getProp r ''description'' = Some (JNum 5)
        \<and> \<not> structuralSchema r\<close>
proof -
  have c: "client freshService" "activeRequests freshService < MAX_CONCURRENCY"
    "cache freshService (generateCacheKey id ''add login'' (name (generateAuthPhase tieAnalysis))
        (files (generateAuthPhase tieAnalysis))) = None"
    by (simp_all add: freshService_def MAX_CONCURRENCY_def)
  have m: \<open>\<forall>n. constantModel ''{"description": 5,}'' n = Content (Some ''{"description": 5,}'')\<close>
    by (simp add: constantModel_def)
  show ?thesis
    using enhancePhase_unvalidated_simple_response[of sampleParse
            \<open>constantModel ''{"description": 5,}''\<close> freshService id "''add login''"
            "generateAuthPhase tieAnalysis" 0 0 0, OF sampleParse_values m c]
    by force
qed

section \<open>Enhancement service: the cache\<close>

lemma generateCacheKey_same:
  assumes "trim (toLowerCase taskText2) = trim (toLowerCase taskText)"
    and "name phase2 = name phase"
    and "sort (map path (files phase2)) = sort (map path (files phase))"
  shows "generateCacheKey sha256 taskText2 (name phase2) (files phase2)
           = generateCacheKey sha256 taskText (name phase) (files phase)"
  using assms by (simp add: generateCacheKey_def cacheKeyInput_def Let_def)

lemma enhanceUncached_result:
  assumes "activeRequests service < MAX_CONCURRENCY"
  shows "enhanceUncached JSON_parse model service calls storedAt phase key =
           (Resolved (fst (performEnhancement JSON_parse model phase calls)),
            service\<lparr>cache := (cache service)(key \<mapsto>
               \<lparr>response = fst (performEnhancement JSON_parse model phase calls),
                timestamp = storedAt, ttl = TTL\<rparr>)\<rparr>,
            snd (performEnhancement JSON_parse model phase calls))"
  using assms by (simp add: enhanceUncached_def Let_def split: prod.splits)

lemma enhancePhase_hit:
  assumes "client service" and "cache service (generateCacheKey sha256 taskText (name phase) (files phase)) = Some entry"
    and "now - timestamp entry < ttl entry"
  shows "enhancePhase JSON_parse sha256 model service calls now storedAt phase taskText
           = (Resolved (response entry), service, calls)"
  using assms by (simp add: enhancePhase_def Let_def)

lemma enhancePhase_miss:
  assumes "client service" and "activeRequests service < MAX_CONCURRENCY"
    and "\<forall>entry. cache service (generateCacheKey sha256 taskText (name phase) (files phase)) = Some entry
            \<longrightarrow> \<not> now - timestamp entry < ttl entry"
  shows "enhancePhase JSON_parse sha256 model service calls now storedAt phase taskText
           = enhanceUncached JSON_parse model service calls storedAt phase
               (generateCacheKey sha256 taskText (name phase) (files phase))"
  using assms by (simp add: enhancePhase_def Let_def split: option.splits)

lemma enhancePhase_first_call:
  assumes cl: "client service" and slot: "activeRequests service < MAX_CONCURRENCY"
    and first: "enhancePhase JSON_parse sha256 model service calls now storedAt phase taskText
                  = (out, service', calls')"
    and key: "key = generateCacheKey sha256 taskText (name phase) (files phase)"
  shows "\<exists>r entry. out = Resolved r \<and> cache service' key = Some entry \<and> response entry = r
           \<and> client service' \<and> activeRequests service' < MAX_CONCURRENCY
           \<and> (cache service key = None
                \<longrightarrow> calls < calls' \<and> timestamp entry = storedAt \<and> ttl entry = TTL)"
proof (cases "\<exists>entry. cache service key = Some entry \<and> now - timestamp entry < ttl entry")
  case True
  then obtain entry where e: "cache service key = Some entry" "now - timestamp entry < ttl entry"
    by blast
  have "enhancePhase JSON_parse sha256 model service calls now storedAt phase taskText
          = (Resolved (response entry), service, calls)"
    by (rule enhancePhase_hit[OF cl e[unfolded key]])
  with first have "out = Resolved (response entry)" "service' = service" "calls' = calls"
    by simp_all
  with e cl slot show ?thesis
    by (intro exI[of _ "response entry"] exI[of _ entry]) simp
next
  case False
  then have no: "\<forall>entry. cache service (generateCacheKey sha256 taskText (name phase) (files phase))
                    = Some entry \<longrightarrow> \<not> now - timestamp entry < ttl entry"
    by (simp add: key)
  let ?p = "performEnhancement JSON_parse model phase calls"
  let ?entry = "\<lparr>response = fst ?p, timestamp = storedAt, ttl = TTL\<rparr>"
  have "enhancePhase JSON_parse sha256 model service calls now storedAt phase taskText
          = (Resolved (fst ?p), service\<lparr>cache := (cache service)(key \<mapsto> ?entry)\<rparr>, snd ?p)"
    by (simp only: enhancePhase_miss[OF cl slot no] enhanceUncached_result[OF slot] key)
  with first have r: "out = Resolved (fst ?p)"
    "service' = service\<lparr>cache := (cache service)(key \<mapsto> ?entry)\<rparr>" "calls' = snd ?p"
    by simp_all
  have "calls < calls'"
    by (simp only: r performEnhancement_calls)
  with r cl slot show ?thesis
    by (intro exI[of _ "fst ?p"] exI[of _ ?entry]) simp
qed

text \<open>
  C7: let a first \<open>enhancePhase\<close> call complete, and let a second call have the same
  task after lower-casing and trimming, the same phase name and the same sorted file
  paths.  Then the first call leaves a cache entry holding its response; if the second call
  is made within the entry's TTL of the entry's timestamp it returns that response without
  calling the model and without changing the service, and otherwise it calls the model
  again.  An entry written by the first call (none was there before) took at least one
  model call and carries the time of caching and the TTL of 24 hours.
\<close>

theorem enhancement_cache:
  assumes cl: "client service" and slot: "activeRequests service < MAX_CONCURRENCY"
    and task: "trim (toLowerCase taskText2) = trim (toLowerCase taskText)"
    and nm: "name phase2 = name phase"
    and paths: "sort (map path (files phase2)) = sort (map path (files phase))"
    and first: "enhancePhase JSON_parse sha256 model service calls now storedAt phase taskText
                  = (out, service', calls')"
    and second: "enhancePhase JSON_parse sha256 model service' calls' now2 storedAt2 phase2 taskText2
                  = (out2, service'', calls'')"
  shows "\<exists>r entry.
           out = Resolved r
           \<and> cache service' (generateCacheKey sha256 taskText (name phase) (files phase)) = Some entry
           \<and> response entry = r
           \<and> (now2 - timestamp entry < ttl entry
                \<longrightarrow> out2 = Resolved r \<and> calls'' = calls' \<and> service'' = service')
           \<and> (\<not> now2 - timestamp entry < ttl entry \<longrightarrow> calls' < calls'')
           \<and> (cache service (generateCacheKey sha256 taskText (name phase) (files phase)) = None
                \<longrightarrow> calls < calls' \<and> timestamp entry = storedAt \<and> ttl entry = 24 * 60 * 60 * 1000)"
proof -
  define key where "key = generateCacheKey sha256 taskText (name phase) (files phase)"
  have key2: "generateCacheKey sha256 taskText2 (name phase2) (files phase2) = key"
    unfolding key_def by (rule generateCacheKey_same[OF task nm paths])
  have "\<exists>r entry. out = Resolved r \<and> cache service' key = Some entry \<and> response entry = r
           \<and> client service' \<and> activeRequests service' < MAX_CONCURRENCY
           \<and> (cache service key = None
                \<longrightarrow> calls < calls' \<and> timestamp entry = storedAt \<and> ttl entry = TTL)"
    by (rule enhancePhase_first_call[OF cl slot first key_def])
  then obtain r entry where o: "out = Resolved r" and c: "cache service' key = Some entry"
    and re: "response entry = r" and cl': "client service'"
    and slot': "activeRequests service' < MAX_CONCURRENCY"
    and fresh: "cache service key = None
                  \<longrightarrow> calls < calls' \<and> timestamp entry = storedAt \<and> ttl entry = TTL"
    by (elim exE conjE)
  have hit: "out2 = Resolved r \<and> calls'' = calls' \<and> service'' = service'"
    if w: "now2 - timestamp entry < ttl entry"
  proof -
    have "enhancePhase JSON_parse sha256 model service' calls' now2 storedAt2 phase2 taskText2
            = (Resolved (response entry), service', calls')"
      by (rule enhancePhase_hit[OF cl' c[folded key2] w])
    with second re show ?thesis by simp
  qed
  have miss: "calls' < calls''" if w: "\<not> now2 - timestamp entry < ttl entry"
  proof -
    have no: "\<forall>e. cache service' (generateCacheKey sha256 taskText2 (name phase2) (files phase2)) = Some e
            \<longrightarrow> \<not> now2 - timestamp e < ttl e"
      using c w by (simp add: key2)
    have "calls'' = snd (performEnhancement JSON_parse model phase2 calls')"
      using second
      by (simp only: enhancePhase_miss[OF cl' slot' no] enhanceUncached_result[OF slot']) simp
    then show ?thesis
      by (simp only: performEnhancement_calls)
  qed
  have fresh': "cache service key = None
                  \<longrightarrow> calls < calls' \<and> timestamp entry = storedAt
                      \<and> ttl entry = 24 * 60 * 60 * 1000"
    using fresh by (simp add: TTL_def)
  have "out = Resolved r \<and> cache service' key = Some entry \<and> response entry = r
        \<and> (now2 - timestamp entry < ttl entry
             \<longrightarrow> out2 = Resolved r \<and> calls'' = calls' \<and> service'' = service')
        \<and> (\<not> now2 - timestamp entry < ttl entry \<longrightarrow> calls' < calls'')
        \<and> (cache service key = None
             \<longrightarrow> calls < calls' \<and> timestamp entry = storedAt
                 \<and> ttl entry = 24 * 60 * 60 * 1000)"
    using o c re hit miss fresh' by blast
  then show ?thesis
    unfolding key_def by (intro exI[of _ r] exI[of _ entry])
qed

lemma freshService_ready:
  "client freshService" "activeRequests freshService < MAX_CONCURRENCY"
  "cache freshService k = None"
  by (simp_all add: freshService_def MAX_CONCURRENCY_def)

theorem enhancement_cache_witness:
  "trim (toLowerCase ''add login'') = trim (toLowerCase ''Add Login '')
   \<and> fst (enhancePhase sampleParse id failingModel
            (fst (snd (enhancePhase sampleParse id failingModel freshService 0 0 1000
                         (generateAuthPhase tieAnalysis) ''Add Login '')))
            (snd (snd (enhancePhase sampleParse id failingModel freshService 0 0 1000
                         (generateAuthPhase tieAnalysis) ''Add Login '')))
            5000 6000 (generateAuthPhase tieAnalysis) ''add login'')
     = fst (enhancePhase sampleParse id failingModel freshService 0 0 1000
              (generateAuthPhase tieAnalysis) ''Add Login '')
   \<and> snd (snd (enhancePhase sampleParse id failingModel freshService 0 0 1000
                  (generateAuthPhase tieAnalysis) ''Add Login ''))
     < snd (snd (enhancePhase sampleParse id failingModel
            (fst (snd (enhancePhase sampleParse id failingModel freshService 0 0 1000
                         (generateAuthPhase tieAnalysis) ''Add Login '')))
            (snd (snd (enhancePhase sampleParse id failingModel freshService 0 0 1000
                         (generateAuthPhase tieAnalysis) ''Add Login '')))
            90000000 90000001 (generateAuthPhase tieAnalysis) ''add login''))"
proof -
  let ?ph = "generateAuthPhase tieAnalysis"
  let ?key = "generateCacheKey id ''Add Login '' (name ?ph) (files ?ph)"
  let ?X = "enhancePhase sampleParse id failingModel freshService 0 0 1000 ?ph ''Add Login ''"
  let ?Y = "enhancePhase sampleParse id failingModel (fst (snd ?X)) (snd (snd ?X)) 5000 6000 ?ph
              ''add login''"
  let ?Z = "enhancePhase sampleParse id failingModel (fst (snd ?X)) (snd (snd ?X)) 90000000
              90000001 ?ph ''add login''"
  have l1: "toLowerCase ''add login'' = ''add login''"
    by (simp add: toLowerCase_evals)
  have l2: "toLowerCase ''Add Login '' = ''add login ''"
    by (simp add: toLowerCase_evals)
  have t: "trim (toLowerCase ''add login'') = trim (toLowerCase ''Add Login '')"
    by (simp add: l1 l2 trim_def isSpace_def)
  have first: "?X = (fst ?X, fst (snd ?X), snd (snd ?X))"
    by simp
  have second: "?Y = (fst ?Y, fst (snd ?Y), snd (snd ?Y))"
    by simp
  have third: "?Z = (fst ?Z, fst (snd ?Z), snd (snd ?Z))"
    by simp
  have "\<exists>r entry.
           fst ?X = Resolved r
           \<and> cache (fst (snd ?X)) ?key = Some entry
           \<and> response entry = r
           \<and> (5000 - timestamp entry < ttl entry
                \<longrightarrow> fst ?Y = Resolved r \<and> snd (snd ?Y) = snd (snd ?X) \<and> fst (snd ?Y) = fst (snd ?X))
           \<and> (\<not> 5000 - timestamp entry < ttl entry \<longrightarrow> snd (snd ?X) < snd (snd ?Y))
           \<and> (cache freshService ?key = None
                \<longrightarrow> 0 < snd (snd ?X) \<and> timestamp entry = 1000 \<and> ttl entry = 24 * 60 * 60 * 1000)"
    by (rule enhancement_cache[OF freshService_ready(1,2) t refl refl first second])
  then obtain r entry where x: "fst ?X = Resolved r"
    and e: "cache (fst (snd ?X)) ?key = Some entry"
    and "response entry = r"
    and hit: "5000 - timestamp entry < ttl entry
                \<longrightarrow> fst ?Y = Resolved r \<and> snd (snd ?Y) = snd (snd ?X) \<and> fst (snd ?Y) = fst (snd ?X)"
    and "\<not> 5000 - timestamp entry < ttl entry \<longrightarrow> snd (snd ?X) < snd (snd ?Y)"
    and fresh: "cache freshService ?key = None
                 \<longrightarrow> 0 < snd (snd ?X) \<and> timestamp entry = 1000 \<and> ttl entry = 24 * 60 * 60 * 1000"
    by (elim exE conjE)
  from fresh have ts: "timestamp entry = 1000" "ttl entry = 24 * 60 * 60 * 1000"
    by (simp_all add: freshService_ready)
  then have "5000 - timestamp entry < ttl entry"
    by simp
  with hit x have y: "fst ?Y = fst ?X"
    by simp
  have "\<exists>r' entry'.
           fst ?X = Resolved r'
           \<and> cache (fst (snd ?X)) ?key = Some entry'
           \<and> response entry' = r'
           \<and> (90000000 - timestamp entry' < ttl entry'
                \<longrightarrow> fst ?Z = Resolved r' \<and> snd (snd ?Z) = snd (snd ?X) \<and> fst (snd ?Z) = fst (snd ?X))
           \<and> (\<not> 90000000 - timestamp entry' < ttl entry' \<longrightarrow> snd (snd ?X) < snd (snd ?Z))
           \<and> (cache freshService ?key = None
                \<longrightarrow> 0 < snd (snd ?X) \<and> timestamp entry' = 1000 \<and> ttl entry' = 24 * 60 * 60 * 1000)"
    by (rule enhancement_cache[OF freshService_ready(1,2) t refl refl first third])
  then obtain r' entry' where "fst ?X = Resolved r'"
    and e': "cache (fst (snd ?X)) ?key = Some entry'"
    and "response entry' = r'"
    and "90000000 - timestamp entry' < ttl entry'
                \<longrightarrow> fst ?Z = Resolved r' \<and> snd (snd ?Z) = snd (snd ?X) \<and> fst (snd ?Z) = fst (snd ?X)"
    and miss: "\<not> 90000000 - timestamp entry' < ttl entry' \<longrightarrow> snd (snd ?X) < snd (snd ?Z)"
    and "cache freshService ?key = None
                 \<longrightarrow> 0 < snd (snd ?X) \<and> timestamp entry' = 1000 \<and> ttl entry' = 24 * 60 * 60 * 1000"
    by (elim exE conjE)
  from e e' have "entry' = entry"
    by simp
  with ts have "\<not> 90000000 - timestamp entry' < ttl entry'"
    by simp
  with miss have z: "snd (snd ?X) < snd (snd ?Z)"
    by simp
  from t y z show ?thesis
    by (simp only: simp_thms)
qed

section \<open>Plan orchestrator: completion and consistency of the state\<close>

lemma setAllStatuses_fold:
  "phaseStatuses (fold (\<lambda>i st. st\<lparr>phaseStatuses := (phaseStatuses st)(i \<mapsto> s)\<rparr>) is state) j
     = (if j \<in> set is then Some s else phaseStatuses state j)
   \<and> enhancedPhases (fold (\<lambda>i st. st\<lparr>phaseStatuses := (phaseStatuses st)(i \<mapsto> s)\<rparr>) is state)
     = enhancedPhases state
   \<and> basePlan (fold (\<lambda>i st. st\<lparr>phaseStatuses := (phaseStatuses st)(i \<mapsto> s)\<rparr>) is state)
     = basePlan state
   \<and> progress (fold (\<lambda>i st. st\<lparr>phaseStatuses := (phaseStatuses st)(i \<mapsto> s)\<rparr>) is state)
     = progress state
   \<and> isComplete (fold (\<lambda>i st. st\<lparr>phaseStatuses := (phaseStatuses st)(i \<mapsto> s)\<rparr>) is state)
     = isComplete state"
  by (induction "is" arbitrary: state) simp_all

lemma setAllStatuses_simps:
  "phaseStatuses (setAllStatuses s state) j
     = (if j < length (phases (basePlan state)) then Some s else phaseStatuses state j)"
  "enhancedPhases (setAllStatuses s state) = enhancedPhases state"
  "basePlan (setAllStatuses s state) = basePlan state"
  "progress (setAllStatuses s state) = progress state"
  "isComplete (setAllStatuses s state) = isComplete state"
  by (simp_all add: setAllStatuses_def setAllStatuses_fold)

lemma setProgressCurrent_simps:
  "phaseStatuses (setProgressCurrent n state) = phaseStatuses state"
  "enhancedPhases (setProgressCurrent n state) = enhancedPhases state"
  "basePlan (setProgressCurrent n state) = basePlan state"
  "current (progress (setProgressCurrent n state)) = n"
  "total (progress (setProgressCurrent n state)) = total (progress state)"
  "isComplete (setProgressCurrent n state) = isComplete state"
  by (simp_all add: setProgressCurrent_def)

lemma batch_throws:
  "phaseStatuses (enhancePlanAsync_batch BatchThrows state) i
     = (if i < length (phases (basePlan state)) then Some EnhancementFailed else phaseStatuses state i)"
  "enhancedPhases (enhancePlanAsync_batch BatchThrows state) = enhancedPhases state"
  by (simp_all add: enhancePlanAsync_batch_def Let_def batchAwaiting_def setAllStatuses_simps setProgressCurrent_simps)

lemma processBatch_fold:
  "basePlan (fold (processBatchResult rs) is state) = basePlan state
   \<and> progress (fold (processBatchResult rs) is state) = progress state
   \<and> isComplete (fold (processBatchResult rs) is state) = isComplete state"
  by (induction "is" arbitrary: state)
     (simp_all add: processBatchResult_def split: option.splits)

lemma batch_completes:
  "isComplete (enhancePlanAsync_batch outcome state)"
  "current (progress (enhancePlanAsync_batch outcome state)) = length (phases (basePlan state))"
  "total (progress (enhancePlanAsync_batch outcome state)) = total (progress state)"
  by (cases outcome; simp add: enhancePlanAsync_batch_def Let_def batchAwaiting_def setAllStatuses_simps setProgressCurrent_simps processBatch_fold)+

lemma initial_state_fresh:
  "enhancedPhases (initialEnhancementState sha256 now started taskText apiKey) = (\<lambda>i. None)"
  "phaseStatuses (initialEnhancementState sha256 now started taskText apiKey) = (\<lambda>i. None)"
  "total (progress (initialEnhancementState sha256 now started taskText apiKey))
     = length (phases (basePlan (initialEnhancementState sha256 now started taskText apiKey)))"
  "phases (basePlan (initialEnhancementState sha256 now started taskText apiKey))
     = phases (planTask now taskText)"
  by (simp_all add: initialEnhancementState_def Let_def)

lemma mapsConsistentI:
  assumes "\<And>j. (enhancedPhases s j \<noteq> None \<longleftrightarrow> phaseStatuses s j = Some Enhanced)
               \<and> enhancedPhases s j \<noteq> Some FailedMarker"
  shows "mapsConsistent s"
  using assms by (simp add: mapsConsistent_def)

lemma mapsConsistentD:
  assumes "mapsConsistent s"
  shows "(enhancedPhases s j \<noteq> None \<longleftrightarrow> phaseStatuses s j = Some Enhanced)
         \<and> enhancedPhases s j \<noteq> Some FailedMarker"
  using assms by (simp add: mapsConsistent_def)

lemma truthy_None: "\<not> truthy None"
  by (simp add: truthy_def)

lemma processBatchResult_status:
  "phaseStatuses (processBatchResult rs i state) j
     = (if j = i then Some (if truthy (arrayAt rs i) then Enhanced else EnhancementFailed)
        else phaseStatuses state j)"
  by (simp add: processBatchResult_def truthy_None split: option.splits)

lemma processBatchResult_entry:
  "(enhancedPhases (processBatchResult rs i state) j = None)
     = (\<not> (j = i \<and> truthy (arrayAt rs i)) \<and> enhancedPhases state j = None)"
  "(enhancedPhases (processBatchResult rs i state) j = Some FailedMarker)
     = (\<not> (j = i \<and> truthy (arrayAt rs i)) \<and> enhancedPhases state j = Some FailedMarker)"
  by (auto simp: processBatchResult_def truthy_None split: option.splits)

lemma processBatch_status:
  "phaseStatuses (fold (processBatchResult rs) is state) j
     = (if j \<in> set is
        then Some (if truthy (arrayAt rs j) then Enhanced else EnhancementFailed)
        else phaseStatuses state j)"
  by (induction "is" arbitrary: state) (simp_all add: processBatchResult_status)

lemma processBatch_entry:
  "(enhancedPhases (fold (processBatchResult rs) is state) j = None)
     = (\<not> (j \<in> set is \<and> truthy (arrayAt rs j)) \<and> enhancedPhases state j = None)"
proof (induction "is" arbitrary: state)
  case Nil
  show ?case by simp
next
  case (Cons i "is")
  show ?case
    using Cons.IH[of "processBatchResult rs i state"] processBatchResult_entry(1)[of rs i state j]
    by auto
qed

lemma processBatch_marker:
  "enhancedPhases state j \<noteq> Some FailedMarker
     \<Longrightarrow> enhancedPhases (fold (processBatchResult rs) is state) j \<noteq> Some FailedMarker"
proof (induction "is" arbitrary: state)
  case Nil
  then show ?case by simp
next
  case (Cons i "is")
  have "enhancedPhases (processBatchResult rs i state) j \<noteq> Some FailedMarker"
    using Cons.prems by (simp add: processBatchResult_entry(2))
  from Cons.IH[OF this] show ?case by simp
qed

lemma mapsConsistent_maps:
  assumes "enhancedPhases s' = enhancedPhases s" and "phaseStatuses s' = phaseStatuses s"
  shows "mapsConsistent s' = mapsConsistent s"
  by (simp add: mapsConsistent_def assms)

lemma batchTrace_consistent:
  assumes "enhancedPhases state0 = (\<lambda>i. None)" and "phaseStatuses state0 = (\<lambda>i. None)"
  shows "\<forall>s \<in> set (batchTrace outcome state0). mapsConsistent s"
proof -
  have s0: "mapsConsistent state0"
    by (simp add: mapsConsistent_def assms)
  have s1: "mapsConsistent (batchAwaiting state0)"
    by (simp add: mapsConsistent_def batchAwaiting_def setAllStatuses_simps assms)
  have s2: "mapsConsistent (enhancePlanAsync_batch outcome state0)"
  proof (cases outcome)
    case BatchThrows
    then show ?thesis
      by (simp add: mapsConsistent_def batch_throws assms)
  next
    case (BatchResults rs)
    let ?n = "length (phases (basePlan state0))"
    let ?f = "fold (processBatchResult rs) [0..<?n] (batchAwaiting state0)"
    have e: "enhancedPhases (enhancePlanAsync_batch outcome state0) = enhancedPhases ?f"
      and p: "phaseStatuses (enhancePlanAsync_batch outcome state0) = phaseStatuses ?f"
      by (simp_all add: BatchResults enhancePlanAsync_batch_def Let_def setProgressCurrent_simps
            batchAwaiting_def setAllStatuses_simps)
    have "mapsConsistent ?f"
    proof (rule mapsConsistentI)
      fix j
      have m: "enhancedPhases (batchAwaiting state0) j \<noteq> Some FailedMarker"
        by (simp add: batchAwaiting_def setAllStatuses_simps assms)
      show "(enhancedPhases ?f j \<noteq> None \<longleftrightarrow> phaseStatuses ?f j = Some Enhanced)
            \<and> enhancedPhases ?f j \<noteq> Some FailedMarker"
        using processBatch_marker[OF m, of rs "[0..<?n]"]
        by (simp add: processBatch_entry processBatch_status batchAwaiting_def
              setAllStatuses_simps assms)
    qed
    then show ?thesis
      by (simp only: mapsConsistent_maps[OF e p])
  qed
  from s0 s1 s2 show ?thesis
    by (simp add: batchTrace_def)
qed

lemma seqAwaiting_consistent:
  assumes "mapsConsistent state" and "enhancedPhases state i = None"
  shows "mapsConsistent (seqAwaiting i state)"
proof (rule mapsConsistentI)
  fix j
  show "(enhancedPhases (seqAwaiting i state) j \<noteq> None
           \<longleftrightarrow> phaseStatuses (seqAwaiting i state) j = Some Enhanced)
        \<and> enhancedPhases (seqAwaiting i state) j \<noteq> Some FailedMarker"
    using mapsConsistentD[OF assms(1), of j] assms(2)
    by (cases "j = i") (simp_all add: seqAwaiting_def)
qed

lemma seqSettle_consistent:
  assumes "mapsConsistent state" and "enhancedPhases state i = None"
  shows "mapsConsistent (seqSettle i result state)"
proof (rule mapsConsistentI)
  fix j
  show "(enhancedPhases (seqSettle i result state) j \<noteq> None
           \<longleftrightarrow> phaseStatuses (seqSettle i result state) j = Some Enhanced)
        \<and> enhancedPhases (seqSettle i result state) j \<noteq> Some FailedMarker"
    using mapsConsistentD[OF assms(1), of j] assms(2)
    by (cases result; cases "j = i") (simp_all add: seqSettle_def setProgressCurrent_def)
qed

lemma seqSettle_others:
  "j \<noteq> i \<Longrightarrow> enhancedPhases (seqSettle i result state) j = enhancedPhases state j"
  by (cases result) (auto simp: seqSettle_def setProgressCurrent_def)

lemma seqAwaiting_entries: "enhancedPhases (seqAwaiting i state) = enhancedPhases state"
  by (simp add: seqAwaiting_def)

lemma seqTrace_consistent:
  assumes "mapsConsistent state" and "\<forall>j \<in> set is. enhancedPhases state j = None" and "distinct is"
  shows "\<forall>s \<in> set (seqTrace results is state). mapsConsistent s"
  using assms
proof (induction "is" arbitrary: state)
  case Nil
  then show ?case
    by (simp add: mapsConsistent_def setProgressCurrent_def)
next
  case (Cons i "is")
  have none: "enhancedPhases state i = None" using Cons.prems(2) by simp
  have a: "mapsConsistent (seqAwaiting i state)"
    by (rule seqAwaiting_consistent[OF Cons.prems(1) none])
  have b: "mapsConsistent (seqSettle i (results i) (seqAwaiting i state))"
    by (rule seqSettle_consistent[OF a]) (simp add: seqAwaiting_entries none)
  have c: "\<forall>j \<in> set is. enhancedPhases (seqSettle i (results i) (seqAwaiting i state)) j = None"
  proof
    fix j
    assume j: "j \<in> set is"
    then have "j \<noteq> i" using Cons.prems(3) by auto
    then show "enhancedPhases (seqSettle i (results i) (seqAwaiting i state)) j = None"
      using Cons.prems(2) j by (simp add: seqSettle_others seqAwaiting_entries)
  qed
  have d: "distinct is" using Cons.prems(3) by simp
  from Cons.IH[OF b c d] a show ?case by simp
qed

lemma sequentialTrace_consistent:
  assumes "enhancedPhases state0 = (\<lambda>i. None)" and "phaseStatuses state0 = (\<lambda>i. None)"
  shows "\<forall>s \<in> set (sequentialTrace results state0). mapsConsistent s"
proof -
  have s0: "mapsConsistent state0"
    by (simp add: mapsConsistent_def assms)
  have "\<forall>s \<in> set (seqTrace results [0 ..< length (phases (basePlan state0))] state0). mapsConsistent s"
    by (rule seqTrace_consistent[OF s0]) (simp_all add: assms)
  with s0 show ?thesis
    by (simp add: sequentialTrace_def)
qed

lemma initial_state_phases:
  "length (phases (basePlan (initialEnhancementState sha256 now started ''login'' apiKey))) = 6"
  by (simp add: initial_state_fresh planTask_phases login_phases)

text \<open>
  C8: in the batch variant, when the batch call throws, every phase index of the plan has
  status \<open>enhancement_failed\<close> afterwards, \<open>progress.current\<close> equals
  \<open>progress.total\<close> (the phase count) and \<open>isComplete\<close> is true; and whatever the
  outcome of the batch call, the run ends complete with \<open>progress.current\<close> equal to
  \<open>progress.total\<close>.  The state is one whose \<open>progress.total\<close> is its phase count, as
  \<open>generateCompletePlan\<close> creates it.
\<close>

theorem batch_exception_completes:
  assumes "total (progress state) = length (phases (basePlan state))"
  shows "(\<forall>i < length (phases (basePlan state)).
            phaseStatuses (enhancePlanAsync_batch BatchThrows state) i = Some EnhancementFailed)
         \<and> current (progress (enhancePlanAsync_batch BatchThrows state))
             = total (progress (enhancePlanAsync_batch BatchThrows state))
         \<and> total (progress (enhancePlanAsync_batch BatchThrows state))
             = length (phases (basePlan state))
         \<and> isComplete (enhancePlanAsync_batch BatchThrows state)
         \<and> isComplete (enhancePlanAsync_batch outcome state)
         \<and> current (progress (enhancePlanAsync_batch outcome state))
             = total (progress (enhancePlanAsync_batch outcome state))"
  using assms by (simp add: batch_throws batch_completes)

theorem batch_exception_completes_witness:
  "phaseStatuses (enhancePlanAsync_batch BatchThrows
      (initialEnhancementState id 0 0 ''login'' (Some ''sk-test''))) 5 = Some EnhancementFailed
   \<and> isComplete (enhancePlanAsync_batch BatchThrows
        (initialEnhancementState id 0 0 ''login'' (Some ''sk-test'')))
   \<and> current (progress (enhancePlanAsync_batch BatchThrows
        (initialEnhancementState id 0 0 ''login'' (Some ''sk-test'')))) = 6"
  using batch_exception_completes[of "initialEnhancementState id 0 0 ''login'' (Some ''sk-test'')"
          BatchThrows]
  by (simp add: initial_state_fresh(3) initial_state_phases)

text \<open>
  C10: in every state that a run of either orchestrator variant goes through, starting
  from the state that \<open>generateCompletePlan\<close> registers, an entry exists at index \<open>i\<close>
  of \<open>enhancedPhases\<close> if and only if \<open>phaseStatuses[i]\<close> is \<open>enhanced\<close>, and the
  \<open>'failed'\<close> marker is never stored.
\<close>

theorem orchestrator_maps_consistent:
  "(\<forall>s \<in> set (batchTrace outcome (initialEnhancementState sha256 now started taskText apiKey)).
      mapsConsistent s)
   \<and> (\<forall>s \<in> set (sequentialTrace results
                  (initialEnhancementState sha256 now started taskText apiKey)).
        mapsConsistent s)"
  using batchTrace_consistent[OF initial_state_fresh(1,2)]
        sequentialTrace_consistent[OF initial_state_fresh(1,2)]
  by blast

theorem orchestrator_maps_consistent_witness:
  "mapsConsistent (enhancePlanAsync_batch (BatchResults [JObj [], JNull])
      (initialEnhancementState id 0 0 ''login'' (Some ''sk-test'')))
   \<and> mapsConsistent (initialEnhancementState id 0 0 ''login'' (Some ''sk-test''))"
  using orchestrator_maps_consistent[of "BatchResults [JObj [], JNull]" id 0 0 "''login''"
          "Some ''sk-test''" "\<lambda>i. Rejected ModelCallFailed"]
  by (simp add: batchTrace_def sequentialTrace_def)

end
